theory Spec2Isabelle
  imports Main "HOL-Library.Word" "HOL-Library.Monad_Syntax" "HOL-Library.Multiset"
begin

unbundle bit_operations_syntax

section \<open>The Intel FPGA Crypto Services driver (drivers/crypto/intel\_fcs.c)\<close>

text \<open>
  A shallow embedding of the driver's four notification callbacks, of its synchronous
  submit primitive \<open>fcs_request_service\<close>, of \<open>fcs_close_services\<close> and of the
  \<open>fcs_ioctl\<close> switch. The service layer (channel, shared buffer pool), user memory
  and the kernel allocator are outside the file: each of their answers is an input of
  the model (the record \<open>env\<close>), and each call into the buffer pool and the channel
  is logged in a trace.

  Left out: the contents of the shared buffers; the two \<open>devm_kzalloc\<close> records,
  which the function never frees itself; logging; and a notification that arrives
  after its waiter has timed out. Of the copies that fill the shared buffers, the ones
  that can fail (\<open>copy_from_user\<close>) or fault (\<open>memcpy\<close> through a caller's pointer in
  the attestation requests) are branches of the model. The model is sequential:
  one caller, and the callback runs inside the wait of \<open>fcs_request_service\<close>.
\<close>

subsection \<open>Constants\<close>

type_synonym u32 = "32 word"

definition RANDOM_NUMBER_SIZE :: nat where "RANDOM_NUMBER_SIZE = 32"
definition PS_BUF_SIZE :: nat where "PS_BUF_SIZE = 64"
definition SHA384_SIZE :: nat where "SHA384_SIZE = 48"
definition INVALID_STATUS :: u32 where "INVALID_STATUS = 0xffffffff"
definition INVALID_CID :: u32 where "INVALID_CID = 0xffffffff"

definition DEC_MIN_SZ :: nat where "DEC_MIN_SZ = 72"
definition DEC_MAX_SZ :: nat where "DEC_MAX_SZ = 32712"
definition ENC_MIN_SZ :: nat where "ENC_MIN_SZ = 120"
definition ENC_MAX_SZ :: nat where "ENC_MAX_SZ = 32760"

definition SUBKEY_CMD_MAX_SZ :: nat where "SUBKEY_CMD_MAX_SZ = 4092"
definition SUBKEY_RSP_MAX_SZ :: nat where "SUBKEY_RSP_MAX_SZ = 820"
definition MEASUREMENT_CMD_MAX_SZ :: nat where "MEASUREMENT_CMD_MAX_SZ = 4092"
definition MEASUREMENT_RSP_MAX_SZ :: nat where "MEASUREMENT_RSP_MAX_SZ = 4092"
definition CERTIFICATE_RSP_MAX_SZ :: nat where "CERTIFICATE_RSP_MAX_SZ = 4096"

definition SIGMA_SESSION_ID_ONE :: u32 where "SIGMA_SESSION_ID_ONE = 0x1"
definition SIGMA_UNKNOWN_SESSION :: u32 where "SIGMA_UNKNOWN_SESSION = 0xffffffff"

text \<open>The error numbers of the kernel (include/uapi/asm-generic/errno-base.h, errno.h).\<close>

definition ENOMEM :: int where "ENOMEM = 12"
definition EFAULT :: int where "EFAULT = 14"
definition EINVAL :: int where "EINVAL = 22"
definition ETIMEDOUT :: int where "ETIMEDOUT = 110"

text \<open>
  The header \<open>stratix10-svc-client.h\<close> and the ioctl header are not part of the
  sources at hand, so what the driver takes from them is a parameter of the model: the
  bit positions of the five service statuses the callbacks test, and the sizes of the
  certificate test word and of the attestation reserve word.
\<close>

record svc_hdr =
  SVC_STATUS_OK :: nat
  SVC_STATUS_COMPLETED :: nat
  SVC_STATUS_BUSY :: nat
  SVC_STATUS_ERROR :: nat
  SVC_STATUS_INVALID_PARAM :: nat
  tsz :: nat
  rsz :: nat

text \<open>\<open>BIT(n)\<close> is \<open>1UL << n\<close>, an unsigned long (64 bits on this platform).\<close>

definition BIT :: "nat \<Rightarrow> 64 word" where
  "BIT n = push_bit n 1"

text \<open>\<open>data->status == BIT(n)\<close>: the 32-bit status is widened for the comparison.\<close>

definition status_is :: "u32 \<Rightarrow> nat \<Rightarrow> bool" where
  "status_is st n \<longleftrightarrow> (ucast st :: 64 word) = BIT n"

subsection \<open>Data\<close>

text \<open>
  A kernel pointer to an \<open>unsigned int\<close> is modelled by the value it points to
  (\<open>None\<close> is \<open>NULL\<close>); a kernel pointer to a buffer of words by the buffer's
  contents, word index to value.
\<close>

type_synonym region = "nat \<Rightarrow> u32"

record stratix10_svc_cb_data =
  cb_status :: u32
  kaddr1 :: "u32 option"
  kaddr2 :: "region option"
  kaddr3 :: "u32 option"

datatype fcs_callback =
    No_callback
  | Fcs_data_callback
  | Fcs_vab_callback
  | Fcs_chipid_callback
  | Fcs_attestation_callback

text \<open>The fields of \<open>struct intel_fcs_priv\<close> that the requests read and write.\<close>

record intel_fcs_priv =
  receive_cb :: fcs_callback
  priv_status :: u32
  kbuf :: "region option"
  priv_size :: u32
  cid_low :: u32
  cid_high :: u32

subsection \<open>The four callbacks\<close>

text \<open>
  A callback that dereferences a \<open>NULL\<close> pointer does not complete: the result is
  \<open>None\<close>. \<open>complete(&priv->completion)\<close> is the return of \<open>Some\<close>.
\<close>

definition fcs_data_callback ::
  "svc_hdr \<Rightarrow> stratix10_svc_cb_data \<Rightarrow> intel_fcs_priv \<Rightarrow> intel_fcs_priv option" where
  "fcs_data_callback K d p =
     (if status_is (cb_status d) (SVC_STATUS_OK K) \<or>
         status_is (cb_status d) (SVC_STATUS_COMPLETED K) then
        (case kaddr3 d of
           None \<Rightarrow> None
         | Some n \<Rightarrow> Some (p\<lparr>priv_status := 0, kbuf := kaddr2 d, priv_size := n\<rparr>))
      else if status_is (cb_status d) (SVC_STATUS_ERROR K) then
        (case kaddr1 d of
           None \<Rightarrow> None
         | Some e \<Rightarrow>
             Some (p\<lparr>priv_status := e, kbuf := kaddr2 d,
                     priv_size := (case kaddr3 d of Some n \<Rightarrow> n | None \<Rightarrow> 0)\<rparr>))
      else Some (p\<lparr>priv_status := of_int (- EINVAL), kbuf := None, priv_size := 0\<rparr>))"

definition fcs_vab_callback ::
  "svc_hdr \<Rightarrow> stratix10_svc_cb_data \<Rightarrow> intel_fcs_priv \<Rightarrow> intel_fcs_priv option" where
  "fcs_vab_callback K d p =
     (if status_is (cb_status d) (SVC_STATUS_ERROR K) then
        (case kaddr1 d of
           None \<Rightarrow> None
         | Some e \<Rightarrow> Some (p\<lparr>priv_status := e\<rparr>))
      else if status_is (cb_status d) (SVC_STATUS_BUSY K) then
        Some (p\<lparr>priv_status := of_int (- ETIMEDOUT)\<rparr>)
      else if status_is (cb_status d) (SVC_STATUS_INVALID_PARAM K) then
        Some (p\<lparr>priv_status := of_int (- EINVAL)\<rparr>)
      else if status_is (cb_status d) (SVC_STATUS_OK K) then
        Some (p\<lparr>priv_status := 0\<rparr>)
      else Some (p\<lparr>priv_status := of_int (- EINVAL)\<rparr>))"

definition fcs_chipid_callback ::
  "svc_hdr \<Rightarrow> stratix10_svc_cb_data \<Rightarrow> intel_fcs_priv \<Rightarrow> intel_fcs_priv option" where
  "fcs_chipid_callback K d p =
     (let p1 = p\<lparr>priv_status := cb_status d\<rparr> in
      if status_is (cb_status d) (SVC_STATUS_OK K) then
        (case kaddr2 d of
           None \<Rightarrow> None
         | Some r \<Rightarrow>
             (case kaddr3 d of
                None \<Rightarrow> None
              | Some h \<Rightarrow> Some (p1\<lparr>priv_status := 0, cid_low := r 0, cid_high := h\<rparr>)))
      else if status_is (cb_status d) (SVC_STATUS_ERROR K) then
        (case kaddr1 d of
           None \<Rightarrow> None
         | Some e \<Rightarrow> Some (p1\<lparr>priv_status := e\<rparr>))
      else Some p1)"

definition fcs_attestation_callback ::
  "svc_hdr \<Rightarrow> stratix10_svc_cb_data \<Rightarrow> intel_fcs_priv \<Rightarrow> intel_fcs_priv option" where
  "fcs_attestation_callback K d p =
     (let p1 = p\<lparr>priv_status := cb_status d\<rparr> in
      if status_is (cb_status d) (SVC_STATUS_OK K) then
        (case kaddr3 d of
           None \<Rightarrow> None
         | Some n \<Rightarrow> Some (p1\<lparr>priv_status := 0, kbuf := kaddr2 d, priv_size := n\<rparr>))
      else if status_is (cb_status d) (SVC_STATUS_ERROR K) then
        (case kaddr1 d of
           None \<Rightarrow> None
         | Some e \<Rightarrow> Some (p1\<lparr>priv_status := e\<rparr>))
      else Some p1)"

text \<open>The service layer calls \<open>client->receive_cb\<close>; calling a \<open>NULL\<close> pointer faults.\<close>

definition call_receive_cb ::
  "svc_hdr \<Rightarrow> stratix10_svc_cb_data \<Rightarrow> intel_fcs_priv \<Rightarrow> intel_fcs_priv option" where
  "call_receive_cb K d p =
     (case receive_cb p of
        No_callback \<Rightarrow> None
      | Fcs_data_callback \<Rightarrow> fcs_data_callback K d p
      | Fcs_vab_callback \<Rightarrow> fcs_vab_callback K d p
      | Fcs_chipid_callback \<Rightarrow> fcs_chipid_callback K d p
      | Fcs_attestation_callback \<Rightarrow> fcs_attestation_callback K d p)"

subsection \<open>Messages, events and the state of one device\<close>

datatype svc_command =
    COMMAND_NOOP
  | COMMAND_FCS_REQUEST_SERVICE
  | COMMAND_POLL_SERVICE_STATUS
  | COMMAND_FCS_SEND_CERTIFICATE
  | COMMAND_FCS_COUNTER_SET_PREAUTHORIZED
  | COMMAND_FCS_RANDOM_NUMBER_GEN
  | COMMAND_FCS_GET_PROVISION_DATA
  | COMMAND_FCS_DATA_ENCRYPTION
  | COMMAND_FCS_DATA_DECRYPTION
  | COMMAND_FCS_PSGSIGMA_TEARDOWN
  | COMMAND_FCS_GET_CHIP_ID
  | COMMAND_FCS_ATTESTATION_SUBKEY
  | COMMAND_FCS_ATTESTATION_MEASUREMENTS
  | COMMAND_FCS_ATTESTATION_CERTIFICATE
  | COMMAND_FCS_ATTESTATION_CERTIFICATE_RELOAD
  | COMMAND_FCS_GET_ROM_PATCH_SHA384

text \<open>A shared buffer is named by the number the pool gave it; \<open>None\<close> is \<open>NULL\<close>.\<close>

type_synonym buf = "nat option"

record stratix10_svc_client_msg =
  command :: svc_command
  payload :: buf
  payload_length :: u32
  payload_output :: buf
  payload_length_output :: u32
  arg0 :: u32
  arg1 :: u32
  arg2 :: u32

text \<open>\<open>devm_kzalloc\<close> returns zeroed memory.\<close>

definition zero_msg :: stratix10_svc_client_msg where
  "zero_msg = \<lparr>command = COMMAND_NOOP, payload = None, payload_length = 0,
     payload_output = None, payload_length_output = 0, arg0 = 0, arg1 = 0, arg2 = 0\<rparr>"

datatype timeout = FCS_REQUEST_TIMEOUT | FCS_COMPLETED_TIMEOUT | FCS_REQUEST_TIMEOUT_x10

datatype event =
    EvAlloc nat nat
  | EvAllocFail nat
  | EvFree nat
  | EvDone
  | EvSend stratix10_svc_client_msg timeout
  | EvCopyRsp nat

text \<open>What the channel does with one message.\<close>

datatype svc_outcome = Rejected | TimedOut | Notified stratix10_svc_cb_data

text \<open>
  \<open>struct intel_fcs_dev_ioctl\<close>: the status word and the members of the union
  \<open>com_paras\<close> that the requests read and write. The layout of the union is in
  the ioctl header and not modelled: each member's fields are fields of the record
  (the sub-key and measurement members share the command fields, these two and the
  certificate member the response fields, the
  encryption and decryption members the four buffer fields, the service and certificate
  requests the size). A user pointer is an address or \<open>NULL\<close>.
\<close>

type_synonym uptr = "nat option"

record intel_fcs_dev_ioctl =
  d_status :: u32
  test_word :: u32
  req_size :: u32
  c_status :: u32
  counter_type :: u32
  counter_value :: u32
  rndm :: "u32 list"
  gp_size :: u32
  gp_addr :: uptr
  src_size :: u32
  dst_size :: u32
  dst :: uptr
  sid :: u32
  chip_id_low :: u32
  chip_id_high :: u32
  cmd_data :: uptr
  cmd_data_sz :: u32
  rsp_data_sz :: u32
  rsp_data :: uptr
  c_request :: u32
  checksum :: "u32 list"

definition zero_data :: intel_fcs_dev_ioctl where
  "zero_data = \<lparr>d_status = 0, test_word = 0, req_size = 0, c_status = 0,
     counter_type = 0, counter_value = 0, rndm = replicate 8 0, gp_size = 0,
     gp_addr = None, src_size = 0, dst_size = 0, dst = None, sid = 0,
     chip_id_low = 0, chip_id_high = 0, cmd_data = None, cmd_data_sz = 0,
     rsp_data_sz = 0,
     rsp_data = None, c_request = 0, checksum = replicate 12 0\<rparr>"

text \<open>
  The state of one device: the driver's private record, its mutex, the calls made into
  the buffer pool and the channel so far, the pool's next buffer, and the caller's
  \<open>struct intel_fcs_dev_ioctl\<close> in user memory (what \<open>arg\<close> points to).
\<close>

record world =
  priv :: intel_fcs_priv
  locked :: bool
  trace :: "event list"
  next_buf :: nat
  user_arg :: intel_fcs_dev_ioctl

subsection \<open>The synchronous submit primitive\<close>

text \<open>
  \<open>mutex_lock\<close> on a mutex that is held does not return in this sequential model
  (nobody else is there to release it): \<open>None\<close>. A notification that faults in the
  callback is \<open>None\<close> as well. Otherwise the result is the return value and the new
  state. The early \<open>return -EINVAL\<close> after a rejected send is before
  \<open>mutex_unlock\<close>.
\<close>

definition fcs_request_service ::
  "svc_hdr \<Rightarrow> svc_outcome \<Rightarrow> stratix10_svc_client_msg \<Rightarrow> timeout \<Rightarrow> world
     \<Rightarrow> (int \<times> world) option" where
  "fcs_request_service K chan msg tmo s =
     (if locked s then None
      else
        let s1 = s\<lparr>locked := True, trace := trace s @ [EvSend msg tmo]\<rparr> in
        case chan of
          Rejected \<Rightarrow> Some (- EINVAL, s1)
        | TimedOut \<Rightarrow> Some (- ETIMEDOUT, s1\<lparr>locked := False\<rparr>)
        | Notified d \<Rightarrow>
            (case call_receive_cb K d (priv s1) of
               None \<Rightarrow> None
             | Some p \<Rightarrow> Some (0, s1\<lparr>priv := p, locked := False\<rparr>)))"

subsection \<open>The buffer pool\<close>

definition stratix10_svc_allocate_memory :: "bool \<Rightarrow> nat \<Rightarrow> world \<Rightarrow> buf \<times> world" where
  "stratix10_svc_allocate_memory ok n s =
     (if ok then
        (Some (next_buf s),
         s\<lparr>trace := trace s @ [EvAlloc (next_buf s) n], next_buf := Suc (next_buf s)\<rparr>)
      else (None, s\<lparr>trace := trace s @ [EvAllocFail n]\<rparr>))"

definition stratix10_svc_free_memory :: "nat \<Rightarrow> world \<Rightarrow> world" where
  "stratix10_svc_free_memory b s = s\<lparr>trace := trace s @ [EvFree b]\<rparr>"

definition stratix10_svc_done :: "world \<Rightarrow> world" where
  "stratix10_svc_done s = s\<lparr>trace := trace s @ [EvDone]\<rparr>"

definition fcs_close_services :: "buf \<Rightarrow> buf \<Rightarrow> world \<Rightarrow> world" where
  "fcs_close_services sbuf dbuf s =
     (let s1 = (case sbuf of Some b \<Rightarrow> stratix10_svc_free_memory b s | None \<Rightarrow> s);
          s2 = (case dbuf of Some b \<Rightarrow> stratix10_svc_free_memory b s1 | None \<Rightarrow> s1)
      in stratix10_svc_done s2)"

text \<open>The buffers a trace allocates and the buffers it frees, in order.\<close>

fun allocated :: "event list \<Rightarrow> nat list" where
  "allocated [] = []"
| "allocated (EvAlloc b n # es) = b # allocated es"
| "allocated (e # es) = allocated es"

fun freed :: "event list \<Rightarrow> nat list" where
  "freed [] = []"
| "freed (EvFree b # es) = b # freed es"
| "freed (e # es) = freed es"

text \<open>Every allocated buffer is freed exactly once and nothing else is freed.\<close>

definition balanced :: "event list \<Rightarrow> bool" where
  "balanced es \<longleftrightarrow> mset (freed es) = mset (allocated es)"

subsection \<open>The environment of one request\<close>

text \<open>
  What the kernel, user memory, the firmware loader, the buffer pool and the channel
  answer during one \<open>ioctl\<close>: whether the two \<open>devm_kzalloc\<close> calls succeed,
  whether \<open>copy_from_user\<close> of the request succeeds, the size of the firmware
  image found (\<open>None\<close>: \<open>request_firmware\<close> fails), whether the allocation of the
  source, destination and poll-status buffer succeeds, whether \<open>copy_from_user\<close> of the
  payload succeeds, what the channel does with the first and with the second message,
  whether \<open>copy_to_user\<close> of the payload and of the request succeed.
\<close>

record env =
  kz_data_ok :: bool
  kz_msg_ok :: bool
  copy_in_ok :: bool
  fw :: "nat option"
  s_buf_ok :: bool
  d_buf_ok :: bool
  ps_buf_ok :: bool
  copy_src_ok :: bool
  svc1 :: svc_outcome
  svc2 :: svc_outcome
  copy_dst_ok :: bool
  copy_out_ok :: bool

definition set_receive_cb :: "fcs_callback \<Rightarrow> world \<Rightarrow> world" where
  "set_receive_cb cb s = s\<lparr>priv := (priv s)\<lparr>receive_cb := cb\<rparr>\<rparr>"

text \<open>\<open>!ret && !priv->status\<close>\<close>

definition phase_ok :: "int \<Rightarrow> world \<Rightarrow> bool" where
  "phase_ok ret s \<longleftrightarrow> ret = 0 \<and> priv_status (priv s) = 0"

text \<open>
  \<open>memcpy(data->...rsp_data, priv->kbuf, priv->size)\<close> of the attestation requests:
  a copy of a non-zero length from or to \<open>NULL\<close> faults.
\<close>

definition memcpy_rsp :: "uptr \<Rightarrow> world \<Rightarrow> world option" where
  "memcpy_rsp to s =
     (if (kbuf (priv s) = None \<or> to = None) \<and> priv_size (priv s) \<noteq> 0 then None
      else Some (s\<lparr>trace := trace s @ [EvCopyRsp (unat (priv_size (priv s)))]\<rparr>))"

text \<open>
  \<open>memcpy(s_buf + rsz, data->...cmd_data, data->...cmd_data_sz)\<close> of the sub-key and
  measurement requests reads through the caller's pointer: a copy of a non-zero length
  from \<open>NULL\<close> faults. The contents of \<open>s_buf\<close> are not modelled, so a copy that
  does not fault leaves the state as it is.
\<close>

definition memcpy_cmd :: "uptr \<Rightarrow> u32 \<Rightarrow> world \<Rightarrow> world option" where
  "memcpy_cmd p n s = (if p = None \<and> n \<noteq> 0 then None else Some s)"

subsection \<open>The requests of \<open>fcs_ioctl\<close>, one definition per case of the switch\<close>

definition ioctl_VALIDATION_REQUEST :: "svc_hdr \<Rightarrow> env \<Rightarrow> world \<Rightarrow> (int \<times> world) option" where
  "ioctl_VALIDATION_REQUEST K E s =
     (if \<not> copy_in_ok E then Some (- EFAULT, s) else
      let data = user_arg s in
      case fw E of
        None \<Rightarrow> Some (- EFAULT, s)
      | Some fw_size \<Rightarrow>
      (case stratix10_svc_allocate_memory (s_buf_ok E) fw_size s of
        (None, s1) \<Rightarrow> Some (- ENOMEM, s1)
      | (Some sb, s1) \<Rightarrow>
      let s_buf = Some sb;
          msg = zero_msg\<lparr>payload_length := of_nat fw_size,
                  command := COMMAND_FCS_REQUEST_SERVICE, payload := s_buf\<rparr>;
          finish = (\<lambda>ret data s.
            if \<not> copy_out_ok E then
              Some (- EFAULT, fcs_close_services s_buf None (fcs_close_services s_buf None s))
            else Some (ret, fcs_close_services s_buf None (s\<lparr>user_arg := data\<rparr>)))
      in
      do {
        (ret, s2) \<leftarrow> fcs_request_service K (svc1 E) msg FCS_REQUEST_TIMEOUT
                       (set_receive_cb Fcs_vab_callback s1);
        if phase_ok ret s2 then
          do {
            (ret, s3) \<leftarrow> fcs_request_service K (svc2 E)
                           (msg\<lparr>command := COMMAND_POLL_SERVICE_STATUS\<rparr>) FCS_COMPLETED_TIMEOUT
                           (set_receive_cb Fcs_data_callback s2);
            if phase_ok ret s3 then finish ret (data\<lparr>d_status := 0\<rparr>) s3
            else finish ret (data\<lparr>d_status := priv_status (priv s3)\<rparr>) s3
          }
        else finish ret (data\<lparr>d_status := priv_status (priv s2)\<rparr>) s2
      }))"

definition ioctl_SEND_CERTIFICATE :: "svc_hdr \<Rightarrow> env \<Rightarrow> world \<Rightarrow> (int \<times> world) option" where
  "ioctl_SEND_CERTIFICATE K E s =
     (if \<not> copy_in_ok E then Some (- EFAULT, s) else
      let data = user_arg s;
          datasz = unat (req_size data) + tsz K in
      case stratix10_svc_allocate_memory (s_buf_ok E) datasz s of
        (None, s1) \<Rightarrow> Some (- ENOMEM, s1)
      | (Some sb, s1) \<Rightarrow>
      (case stratix10_svc_allocate_memory (ps_buf_ok E) PS_BUF_SIZE s1 of
        (None, s2) \<Rightarrow> Some (- ENOMEM, stratix10_svc_free_memory sb s2)
      | (Some pb, s2) \<Rightarrow>
      let s_buf = Some sb; ps_buf = Some pb in
      if \<not> copy_src_ok E then Some (- EFAULT, fcs_close_services s_buf ps_buf s2) else
      let msg = zero_msg\<lparr>payload_length := of_nat datasz,
                  command := COMMAND_FCS_SEND_CERTIFICATE, payload := s_buf\<rparr>;
          finish = (\<lambda>ret data s.
            if \<not> copy_out_ok E then
              Some (- EFAULT, fcs_close_services s_buf ps_buf (fcs_close_services s_buf None s))
            else Some (ret, fcs_close_services s_buf ps_buf (s\<lparr>user_arg := data\<rparr>)))
      in
      do {
        (ret, s3) \<leftarrow> fcs_request_service K (svc1 E) msg FCS_REQUEST_TIMEOUT
                       (set_receive_cb Fcs_vab_callback s2);
        if phase_ok ret s3 then
          do {
            (ret, s4) \<leftarrow> fcs_request_service K (svc2 E)
                           (msg\<lparr>payload := ps_buf, payload_length := of_nat PS_BUF_SIZE,
                                 command := COMMAND_POLL_SERVICE_STATUS\<rparr>)
                           FCS_COMPLETED_TIMEOUT
                           (set_receive_cb Fcs_data_callback s3);
            if phase_ok ret s4 then finish ret (data\<lparr>d_status := 0\<rparr>) s4
            else
              (case kbuf (priv s4) of
                 Some r \<Rightarrow> finish ret (data\<lparr>c_status := r 0\<rparr>) s4
               | None \<Rightarrow> finish ret (data\<lparr>c_status := INVALID_STATUS\<rparr>) s4)
          }
        else finish ret (data\<lparr>d_status := priv_status (priv s3)\<rparr>) s3
      }))"

definition ioctl_COUNTER_SET_PREAUTHORIZED ::
  "svc_hdr \<Rightarrow> env \<Rightarrow> world \<Rightarrow> (int \<times> world) option" where
  "ioctl_COUNTER_SET_PREAUTHORIZED K E s =
     (if \<not> copy_in_ok E then Some (- EFAULT, s) else
      let data = user_arg s;
          msg = zero_msg\<lparr>command := COMMAND_FCS_COUNTER_SET_PREAUTHORIZED,
                  arg0 := counter_type data, arg1 := counter_value data,
                  arg2 := test_word data\<rparr>
      in
      do {
        (ret, s1) \<leftarrow> fcs_request_service K (svc1 E) msg FCS_REQUEST_TIMEOUT
                       (set_receive_cb Fcs_vab_callback s);
        if ret \<noteq> 0 then Some (- EFAULT, s1)
        else if \<not> copy_out_ok E then Some (- EFAULT, s1)
        else Some (ret, s1\<lparr>user_arg := data\<lparr>d_status := priv_status (priv s1)\<rparr>\<rparr>)
      })"

definition ioctl_RANDOM_NUMBER_GEN :: "svc_hdr \<Rightarrow> env \<Rightarrow> world \<Rightarrow> (int \<times> world) option" where
  "ioctl_RANDOM_NUMBER_GEN K E s =
     (if \<not> copy_in_ok E then Some (- EFAULT, s) else
      let data = user_arg s in
      case stratix10_svc_allocate_memory (s_buf_ok E) RANDOM_NUMBER_SIZE s of
        (None, s1) \<Rightarrow> Some (- ENOMEM, s1)
      | (Some sb, s1) \<Rightarrow>
      let s_buf = Some sb;
          msg = zero_msg\<lparr>command := COMMAND_FCS_RANDOM_NUMBER_GEN, payload := s_buf,
                  payload_length := of_nat RANDOM_NUMBER_SIZE\<rparr>;
          finish = (\<lambda>ret data s.
            if \<not> copy_out_ok E then
              Some (- EFAULT, fcs_close_services s_buf None (fcs_close_services s_buf None s))
            else Some (ret, fcs_close_services s_buf None (s\<lparr>user_arg := data\<rparr>)))
      in
      do {
        (ret, s2) \<leftarrow> fcs_request_service K (svc1 E) msg FCS_REQUEST_TIMEOUT
                       (set_receive_cb Fcs_data_callback s1);
        if phase_ok ret s2 then
          (case kbuf (priv s2) of
             None \<Rightarrow> Some (- EFAULT, fcs_close_services s_buf None s2)
           | Some r \<Rightarrow>
               finish ret (data\<lparr>rndm := map r [0..<8], d_status := priv_status (priv s2)\<rparr>) s2)
        else finish ret (data\<lparr>d_status := priv_status (priv s2)\<rparr>) s2
      })"

definition ioctl_GET_PROVISION_DATA :: "svc_hdr \<Rightarrow> env \<Rightarrow> world \<Rightarrow> (int \<times> world) option" where
  "ioctl_GET_PROVISION_DATA K E s =
     (if \<not> copy_in_ok E then Some (- EFAULT, s) else
      let data = user_arg s in
      case stratix10_svc_allocate_memory (s_buf_ok E) (unat (gp_size data)) s of
        (None, s1) \<Rightarrow> Some (- ENOMEM, s1)
      | (Some sb, s1) \<Rightarrow>
      let s_buf = Some sb;
          msg = zero_msg\<lparr>command := COMMAND_FCS_GET_PROVISION_DATA, payload := s_buf,
                  payload_length := gp_size data\<rparr>;
          finish = (\<lambda>ret data s.
            if \<not> copy_out_ok E then Some (- EFAULT, fcs_close_services s_buf None s)
            else Some (ret, fcs_close_services s_buf None (s\<lparr>user_arg := data\<rparr>)))
      in
      do {
        (ret, s2) \<leftarrow> fcs_request_service K (svc1 E) msg FCS_REQUEST_TIMEOUT
                       (set_receive_cb Fcs_data_callback s1);
        if phase_ok ret s2 then
          (case kbuf (priv s2) of
             None \<Rightarrow> Some (- EFAULT, fcs_close_services s_buf None s2)
           | Some r \<Rightarrow>
               if \<not> copy_dst_ok E then Some (- EFAULT, fcs_close_services s_buf None s2)
               else finish 0 (data\<lparr>gp_size := priv_size (priv s2), d_status := 0\<rparr>)
                      (s2\<lparr>trace := trace s2 @ [EvCopyRsp (unat (priv_size (priv s2)))]\<rparr>))
        else finish ret (data\<lparr>gp_addr := None, gp_size := 0,
                               d_status := priv_status (priv s2)\<rparr>) s2
      })"

definition ioctl_DATA_ENCRYPTION :: "svc_hdr \<Rightarrow> env \<Rightarrow> world \<Rightarrow> (int \<times> world) option" where
  "ioctl_DATA_ENCRYPTION K E s =
     (if \<not> copy_in_ok E then Some (- EFAULT, s) else
      let data = user_arg s in
      if unat (src_size data) < DEC_MIN_SZ \<or> unat (src_size data) > DEC_MAX_SZ then Some (- EFAULT, s)
      else if unat (dst_size data) < ENC_MIN_SZ \<or> unat (dst_size data) > ENC_MAX_SZ then Some (- EFAULT, s)
      else
      case stratix10_svc_allocate_memory (s_buf_ok E) DEC_MAX_SZ s of
        (None, s1) \<Rightarrow> Some (- ENOMEM, s1)
      | (Some sb, s1) \<Rightarrow>
      (case stratix10_svc_allocate_memory (d_buf_ok E) ENC_MAX_SZ s1 of
        (None, s2) \<Rightarrow> Some (- ENOMEM, stratix10_svc_free_memory sb s2)
      | (Some db, s2) \<Rightarrow>
      (case stratix10_svc_allocate_memory (ps_buf_ok E) PS_BUF_SIZE s2 of
        (None, s3) \<Rightarrow> Some (- ENOMEM, fcs_close_services (Some sb) (Some db) s3)
      | (Some pb, s3) \<Rightarrow>
      let s_buf = Some sb; d_buf = Some db; ps_buf = Some pb;
          close_all = (\<lambda>s. fcs_close_services s_buf d_buf (fcs_close_services ps_buf None s))
      in
      if \<not> copy_src_ok E then Some (- ENOMEM, close_all s3) else
      let msg = zero_msg\<lparr>command := COMMAND_FCS_DATA_ENCRYPTION, payload := s_buf,
                  payload_length := src_size data, payload_output := d_buf,
                  payload_length_output := dst_size data\<rparr>;
          finish = (\<lambda>ret data s.
            if \<not> copy_out_ok E then Some (- EFAULT, close_all (close_all s))
            else Some (ret, close_all (s\<lparr>user_arg := data\<rparr>)))
      in
      do {
        (ret, s4) \<leftarrow> fcs_request_service K (svc1 E) msg FCS_REQUEST_TIMEOUT
                       (set_receive_cb Fcs_vab_callback s3);
        if phase_ok ret s4 then
          do {
            (ret, s5) \<leftarrow> fcs_request_service K (svc2 E)
                           (msg\<lparr>payload := ps_buf, payload_length := of_nat PS_BUF_SIZE,
                                 command := COMMAND_POLL_SERVICE_STATUS\<rparr>)
                           FCS_COMPLETED_TIMEOUT
                           (set_receive_cb Fcs_data_callback s4);
            if phase_ok ret s5 then
              (case kbuf (priv s5) of
                 None \<Rightarrow> Some (- EFAULT, close_all s5)
               | Some r \<Rightarrow>
                   if \<not> copy_dst_ok E then Some (- EFAULT, close_all s5)
                   else finish 0 (data\<lparr>dst_size := r 0, d_status := 0\<rparr>)
                          (s5\<lparr>trace := trace s5 @ [EvCopyRsp (unat (r 0))]\<rparr>))
            else finish ret (data\<lparr>dst := None, dst_size := 0,
                                   d_status := priv_status (priv s5)\<rparr>) s5
          }
        else finish ret (data\<lparr>dst := None, dst_size := 0,
                               d_status := priv_status (priv s4)\<rparr>) s4
      })))"

definition ioctl_DATA_DECRYPTION :: "svc_hdr \<Rightarrow> env \<Rightarrow> world \<Rightarrow> (int \<times> world) option" where
  "ioctl_DATA_DECRYPTION K E s =
     (if \<not> copy_in_ok E then Some (- EFAULT, s) else
      let data = user_arg s in
      if unat (src_size data) < ENC_MIN_SZ \<or> unat (src_size data) > ENC_MAX_SZ then Some (- EFAULT, s)
      else if unat (dst_size data) < DEC_MIN_SZ \<or> unat (dst_size data) > DEC_MAX_SZ then Some (- EFAULT, s)
      else
      case stratix10_svc_allocate_memory (s_buf_ok E) ENC_MAX_SZ s of
        (None, s1) \<Rightarrow> Some (- ENOMEM, s1)
      | (Some sb, s1) \<Rightarrow>
      (case stratix10_svc_allocate_memory (d_buf_ok E) DEC_MAX_SZ s1 of
        (None, s2) \<Rightarrow> Some (- ENOMEM, stratix10_svc_free_memory sb s2)
      | (Some db, s2) \<Rightarrow>
      (case stratix10_svc_allocate_memory (ps_buf_ok E) PS_BUF_SIZE s2 of
        (None, s3) \<Rightarrow> Some (- ENOMEM, fcs_close_services (Some sb) (Some db) s3)
      | (Some pb, s3) \<Rightarrow>
      let s_buf = Some sb; d_buf = Some db; ps_buf = Some pb;
          close_all = (\<lambda>s. fcs_close_services s_buf d_buf (fcs_close_services ps_buf None s))
      in
      if \<not> copy_src_ok E then Some (- EFAULT, close_all s3) else
      let msg = zero_msg\<lparr>command := COMMAND_FCS_DATA_DECRYPTION, payload := s_buf,
                  payload_length := src_size data, payload_output := d_buf,
                  payload_length_output := dst_size data\<rparr>;
          finish = (\<lambda>ret data s.
            if \<not> copy_out_ok E then Some (- EFAULT, close_all (close_all s))
            else Some (ret, close_all (s\<lparr>user_arg := data\<rparr>)))
      in
      do {
        (ret, s4) \<leftarrow> fcs_request_service K (svc1 E) msg FCS_REQUEST_TIMEOUT
                       (set_receive_cb Fcs_vab_callback s3);
        if phase_ok ret s4 then
          do {
            (ret, s5) \<leftarrow> fcs_request_service K (svc2 E)
                           (msg\<lparr>payload := ps_buf, payload_length := of_nat PS_BUF_SIZE,
                                 command := COMMAND_POLL_SERVICE_STATUS\<rparr>)
                           FCS_COMPLETED_TIMEOUT
                           (set_receive_cb Fcs_data_callback s4);
            if phase_ok ret s5 then
              (case kbuf (priv s5) of
                 None \<Rightarrow> Some (- EFAULT, close_all s5)
               | Some r \<Rightarrow>
                   if \<not> copy_dst_ok E then Some (- EFAULT, close_all s5)
                   else finish 0 (data\<lparr>dst_size := r 0, d_status := 0\<rparr>)
                          (s5\<lparr>trace := trace s5 @ [EvCopyRsp (unat (r 0))]\<rparr>))
            else finish ret (data\<lparr>dst := None, dst_size := 0,
                                   d_status := priv_status (priv s5)\<rparr>) s5
          }
        else finish ret (data\<lparr>dst := None, dst_size := 0,
                               d_status := priv_status (priv s4)\<rparr>) s4
      })))"

definition ioctl_PSGSIGMA_TEARDOWN :: "svc_hdr \<Rightarrow> env \<Rightarrow> world \<Rightarrow> (int \<times> world) option" where
  "ioctl_PSGSIGMA_TEARDOWN K E s =
     (if \<not> copy_in_ok E then Some (- EFAULT, s) else
      let data = user_arg s in
      if sid data \<noteq> SIGMA_SESSION_ID_ONE \<and> sid data \<noteq> SIGMA_UNKNOWN_SESSION
      then Some (- EFAULT, s) else
      let msg = zero_msg\<lparr>command := COMMAND_FCS_PSGSIGMA_TEARDOWN, arg0 := sid data\<rparr>
      in
      do {
        (ret, s1) \<leftarrow> fcs_request_service K (svc1 E) msg FCS_REQUEST_TIMEOUT
                       (set_receive_cb Fcs_vab_callback s);
        if ret \<noteq> 0 then Some (- EFAULT, s1)
        else if \<not> copy_out_ok E then Some (- EFAULT, s1)
        else Some (ret, s1\<lparr>user_arg := data\<lparr>d_status := priv_status (priv s1)\<rparr>\<rparr>)
      })"

text \<open>The chip-identifier request does not read the caller's record: \<open>data\<close> is as
  \<open>devm_kzalloc\<close> left it.\<close>

definition ioctl_CHIP_ID :: "svc_hdr \<Rightarrow> env \<Rightarrow> world \<Rightarrow> (int \<times> world) option" where
  "ioctl_CHIP_ID K E s =
     (let data = zero_data in
      let msg = zero_msg\<lparr>command := COMMAND_FCS_GET_CHIP_ID\<rparr>
      in
      do {
        (ret, s1) \<leftarrow> fcs_request_service K (svc1 E) msg FCS_REQUEST_TIMEOUT
                       (set_receive_cb Fcs_chipid_callback s);
        if ret \<noteq> 0 then Some (- EFAULT, s1)
        else if \<not> copy_out_ok E then Some (- EFAULT, s1)
        else Some (ret, s1\<lparr>user_arg := data\<lparr>d_status := priv_status (priv s1),
                 chip_id_low := cid_low (priv s1), chip_id_high := cid_high (priv s1)\<rparr>\<rparr>)
      })"

definition ioctl_ATTESTATION_SUBKEY :: "svc_hdr \<Rightarrow> env \<Rightarrow> world \<Rightarrow> (int \<times> world) option" where
  "ioctl_ATTESTATION_SUBKEY K E s =
     (if \<not> copy_in_ok E then Some (- EFAULT, s) else
      let data = user_arg s in
      if unat (cmd_data_sz data) > SUBKEY_CMD_MAX_SZ then Some (- EFAULT, s)
      else if unat (rsp_data_sz data) > SUBKEY_RSP_MAX_SZ then Some (- EFAULT, s)
      else
      let datasz = unat (cmd_data_sz data) + rsz K in
      case stratix10_svc_allocate_memory (s_buf_ok E) (SUBKEY_CMD_MAX_SZ + rsz K) s of
        (None, s1) \<Rightarrow> Some (- ENOMEM, s1)
      | (Some sb, s1) \<Rightarrow>
      (case stratix10_svc_allocate_memory (d_buf_ok E) SUBKEY_RSP_MAX_SZ s1 of
        (None, s2) \<Rightarrow> Some (- ENOMEM, s2)
      | (Some db, s2) \<Rightarrow>
      let s_buf = Some sb; d_buf = Some db;
          msg = zero_msg\<lparr>command := COMMAND_FCS_ATTESTATION_SUBKEY, payload := s_buf,
                  payload_length := of_nat datasz, payload_output := d_buf,
                  payload_length_output := of_nat SUBKEY_RSP_MAX_SZ\<rparr>;
          finish = (\<lambda>ret data s.
            if \<not> copy_out_ok E then Some (- EFAULT, s)
            else Some (ret, fcs_close_services s_buf d_buf (s\<lparr>user_arg := data\<rparr>)))
      in
      do {
        s2 \<leftarrow> memcpy_cmd (cmd_data data) (cmd_data_sz data) s2;
        (ret, s3) \<leftarrow> fcs_request_service K (svc1 E) msg FCS_REQUEST_TIMEOUT_x10
                       (set_receive_cb Fcs_attestation_callback s2);
        if phase_ok ret s3 then
          if unat (priv_size (priv s3)) > SUBKEY_RSP_MAX_SZ then
            Some (- EFAULT, fcs_close_services s_buf d_buf s3)
          else
            do {
              s4 \<leftarrow> memcpy_rsp (rsp_data data) s3;
              finish ret (data\<lparr>rsp_data_sz := priv_size (priv s4),
                                d_status := priv_status (priv s4)\<rparr>) s4
            }
        else finish ret (data\<lparr>rsp_data := None, rsp_data_sz := 0,
                               d_status := priv_status (priv s3)\<rparr>) s3
      }))"

definition ioctl_ATTESTATION_MEASUREMENT :: "svc_hdr \<Rightarrow> env \<Rightarrow> world \<Rightarrow> (int \<times> world) option" where
  "ioctl_ATTESTATION_MEASUREMENT K E s =
     (if \<not> copy_in_ok E then Some (- EFAULT, s) else
      let data = user_arg s in
      if unat (cmd_data_sz data) > MEASUREMENT_CMD_MAX_SZ then Some (- EFAULT, s)
      else if unat (rsp_data_sz data) > MEASUREMENT_RSP_MAX_SZ then Some (- EFAULT, s)
      else
      let datasz = unat (cmd_data_sz data) + rsz K in
      case stratix10_svc_allocate_memory (s_buf_ok E) (MEASUREMENT_CMD_MAX_SZ + rsz K) s of
        (None, s1) \<Rightarrow> Some (- ENOMEM, s1)
      | (Some sb, s1) \<Rightarrow>
      (case stratix10_svc_allocate_memory (d_buf_ok E) MEASUREMENT_RSP_MAX_SZ s1 of
        (None, s2) \<Rightarrow> Some (- ENOMEM, s2)
      | (Some db, s2) \<Rightarrow>
      let s_buf = Some sb; d_buf = Some db;
          msg = zero_msg\<lparr>command := COMMAND_FCS_ATTESTATION_MEASUREMENTS, payload := s_buf,
                  payload_length := of_nat datasz, payload_output := d_buf,
                  payload_length_output := of_nat MEASUREMENT_RSP_MAX_SZ\<rparr>;
          finish = (\<lambda>ret data s.
            if \<not> copy_out_ok E then Some (- EFAULT, fcs_close_services s_buf d_buf s)
            else Some (ret, fcs_close_services s_buf d_buf (s\<lparr>user_arg := data\<rparr>)))
      in
      do {
        s2 \<leftarrow> memcpy_cmd (cmd_data data) (cmd_data_sz data) s2;
        (ret, s3) \<leftarrow> fcs_request_service K (svc1 E) msg FCS_REQUEST_TIMEOUT_x10
                       (set_receive_cb Fcs_attestation_callback s2);
        if phase_ok ret s3 then
          if unat (priv_size (priv s3)) > MEASUREMENT_RSP_MAX_SZ then
            Some (- EFAULT, fcs_close_services s_buf d_buf s3)
          else
            do {
              s4 \<leftarrow> memcpy_rsp (rsp_data data) s3;
              finish ret (data\<lparr>rsp_data_sz := priv_size (priv s4),
                                d_status := priv_status (priv s4)\<rparr>) s4
            }
        else finish ret (data\<lparr>rsp_data := None, rsp_data_sz := 0,
                               d_status := priv_status (priv s3)\<rparr>) s3
      }))"

definition ioctl_ATTESTATION_GET_CERTIFICATE ::
  "svc_hdr \<Rightarrow> env \<Rightarrow> world \<Rightarrow> (int \<times> world) option" where
  "ioctl_ATTESTATION_GET_CERTIFICATE K E s =
     (if \<not> copy_in_ok E then Some (- EFAULT, s) else
      let data = user_arg s in
      if unat (rsp_data_sz data) > CERTIFICATE_RSP_MAX_SZ then Some (- EFAULT, s)
      else
      case stratix10_svc_allocate_memory (d_buf_ok E) CERTIFICATE_RSP_MAX_SZ s of
        (None, s1) \<Rightarrow> Some (- ENOMEM, s1)
      | (Some db, s1) \<Rightarrow>
      let d_buf = Some db;
          msg = zero_msg\<lparr>command := COMMAND_FCS_ATTESTATION_CERTIFICATE, payload := None,
                  payload_length := 0, payload_output := d_buf,
                  payload_length_output := of_nat CERTIFICATE_RSP_MAX_SZ,
                  arg0 := c_request data AND 0x000f\<rparr>;
          finish = (\<lambda>ret data s.
            if \<not> copy_out_ok E then
              Some (- EFAULT, fcs_close_services None d_buf (fcs_close_services None d_buf s))
            else Some (ret, fcs_close_services None d_buf (s\<lparr>user_arg := data\<rparr>)))
      in
      do {
        (ret, s2) \<leftarrow> fcs_request_service K (svc1 E) msg FCS_REQUEST_TIMEOUT_x10
                       (set_receive_cb Fcs_attestation_callback s1);
        if phase_ok ret s2 then
          if unat (priv_size (priv s2)) > CERTIFICATE_RSP_MAX_SZ then
            Some (- EFAULT, fcs_close_services None d_buf s2)
          else
            do {
              s3 \<leftarrow> memcpy_rsp (rsp_data data) s2;
              finish ret (data\<lparr>rsp_data_sz := priv_size (priv s3),
                                d_status := priv_status (priv s3)\<rparr>) s3
            }
        else finish ret (data\<lparr>rsp_data := None, rsp_data_sz := 0,
                               d_status := priv_status (priv s2)\<rparr>) s2
      })"

definition ioctl_ATTESTATION_CERTIFICATE_RELOAD :: "svc_hdr \<Rightarrow> env \<Rightarrow> world \<Rightarrow> (int \<times> world) option" where
  "ioctl_ATTESTATION_CERTIFICATE_RELOAD K E s =
     (if \<not> copy_in_ok E then Some (- EFAULT, s) else
      let data = user_arg s in
      let msg = zero_msg\<lparr>command := COMMAND_FCS_ATTESTATION_CERTIFICATE_RELOAD,
                  arg0 := c_request data AND 0x000f\<rparr>
      in
      do {
        (ret, s1) \<leftarrow> fcs_request_service K (svc1 E) msg FCS_REQUEST_TIMEOUT_x10
                       (set_receive_cb Fcs_vab_callback s);
        if ret \<noteq> 0 then Some (- EFAULT, s1)
        else if \<not> copy_out_ok E then Some (- EFAULT, s1)
        else Some (ret, s1\<lparr>user_arg := data\<lparr>d_status := priv_status (priv s1)\<rparr>\<rparr>)
      })"

text \<open>
  In the digest request the branch for a returned size above \<open>SHA384_SIZE\<close> closes the
  services and sets \<open>ret\<close>, and goes on to the copy and to the common exit.
\<close>

definition ioctl_GET_ROM_PATCH_SHA384 :: "svc_hdr \<Rightarrow> env \<Rightarrow> world \<Rightarrow> (int \<times> world) option" where
  "ioctl_GET_ROM_PATCH_SHA384 K E s =
     (if \<not> copy_in_ok E then Some (- EFAULT, s) else
      let data = user_arg s in
      case stratix10_svc_allocate_memory (s_buf_ok E) SHA384_SIZE s of
        (None, s1) \<Rightarrow> Some (- ENOMEM, s1)
      | (Some sb, s1) \<Rightarrow>
      let s_buf = Some sb;
          msg = zero_msg\<lparr>command := COMMAND_FCS_GET_ROM_PATCH_SHA384, payload := s_buf,
                  payload_length := of_nat SHA384_SIZE\<rparr>;
          finish = (\<lambda>ret data s.
            if \<not> copy_out_ok E then
              Some (- EFAULT, fcs_close_services s_buf None (fcs_close_services s_buf None s))
            else Some (ret, fcs_close_services s_buf None (s\<lparr>user_arg := data\<rparr>)))
      in
      do {
        (ret, s2) \<leftarrow> fcs_request_service K (svc1 E) msg FCS_REQUEST_TIMEOUT
                       (set_receive_cb Fcs_data_callback s1);
        if phase_ok ret s2 then
          (case kbuf (priv s2) of
             None \<Rightarrow> Some (- EFAULT, fcs_close_services s_buf None s2)
           | Some r \<Rightarrow>
               let (ret, s3) =
                     (if unat (priv_size (priv s2)) > SHA384_SIZE
                      then (- EFAULT, fcs_close_services s_buf None s2) else (ret, s2))
               in finish ret (data\<lparr>checksum := map r [0..<12],
                                    d_status := priv_status (priv s3)\<rparr>) s3)
        else finish ret (data\<lparr>d_status := priv_status (priv s2)\<rparr>) s2
      })"

subsection \<open>\<open>fcs_ioctl\<close>\<close>

text \<open>
  The command codes are macros of the ioctl header; the fourteen case labels of the
  switch are the first fourteen constructors, any other code is \<open>INTEL_FCS_DEV_OTHER\<close>.
\<close>

datatype fcs_cmd =
    INTEL_FCS_DEV_VALIDATION_REQUEST
  | INTEL_FCS_DEV_SEND_CERTIFICATE
  | INTEL_FCS_DEV_COUNTER_SET_PREAUTHORIZED
  | INTEL_FCS_DEV_RANDOM_NUMBER_GEN
  | INTEL_FCS_DEV_GET_PROVISION_DATA
  | INTEL_FCS_DEV_DATA_ENCRYPTION
  | INTEL_FCS_DEV_DATA_DECRYPTION
  | INTEL_FCS_DEV_PSGSIGMA_TEARDOWN
  | INTEL_FCS_DEV_CHIP_ID
  | INTEL_FCS_DEV_ATTESTATION_SUBKEY
  | INTEL_FCS_DEV_ATTESTATION_MEASUREMENT
  | INTEL_FCS_DEV_ATTESTATION_GET_CERTIFICATE
  | INTEL_FCS_DEV_ATTESTATION_CERTIFICATE_RELOAD
  | INTEL_FCS_DEV_GET_ROM_PATCH_SHA384
  | INTEL_FCS_DEV_OTHER u32

definition fcs_ioctl :: "svc_hdr \<Rightarrow> env \<Rightarrow> fcs_cmd \<Rightarrow> world \<Rightarrow> (int \<times> world) option" where
  "fcs_ioctl K E cmd s =
     (if \<not> kz_data_ok E then Some (- ENOMEM, s)
      else if \<not> kz_msg_ok E then Some (- ENOMEM, s)
      else
        case cmd of
          INTEL_FCS_DEV_VALIDATION_REQUEST \<Rightarrow> ioctl_VALIDATION_REQUEST K E s
        | INTEL_FCS_DEV_SEND_CERTIFICATE \<Rightarrow> ioctl_SEND_CERTIFICATE K E s
        | INTEL_FCS_DEV_COUNTER_SET_PREAUTHORIZED \<Rightarrow> ioctl_COUNTER_SET_PREAUTHORIZED K E s
        | INTEL_FCS_DEV_RANDOM_NUMBER_GEN \<Rightarrow> ioctl_RANDOM_NUMBER_GEN K E s
        | INTEL_FCS_DEV_GET_PROVISION_DATA \<Rightarrow> ioctl_GET_PROVISION_DATA K E s
        | INTEL_FCS_DEV_DATA_ENCRYPTION \<Rightarrow> ioctl_DATA_ENCRYPTION K E s
        | INTEL_FCS_DEV_DATA_DECRYPTION \<Rightarrow> ioctl_DATA_DECRYPTION K E s
        | INTEL_FCS_DEV_PSGSIGMA_TEARDOWN \<Rightarrow> ioctl_PSGSIGMA_TEARDOWN K E s
        | INTEL_FCS_DEV_CHIP_ID \<Rightarrow> ioctl_CHIP_ID K E s
        | INTEL_FCS_DEV_ATTESTATION_SUBKEY \<Rightarrow> ioctl_ATTESTATION_SUBKEY K E s
        | INTEL_FCS_DEV_ATTESTATION_MEASUREMENT \<Rightarrow> ioctl_ATTESTATION_MEASUREMENT K E s
        | INTEL_FCS_DEV_ATTESTATION_GET_CERTIFICATE \<Rightarrow> ioctl_ATTESTATION_GET_CERTIFICATE K E s
        | INTEL_FCS_DEV_ATTESTATION_CERTIFICATE_RELOAD \<Rightarrow>
            ioctl_ATTESTATION_CERTIFICATE_RELOAD K E s
        | INTEL_FCS_DEV_GET_ROM_PATCH_SHA384 \<Rightarrow> ioctl_GET_ROM_PATCH_SHA384 K E s
        | INTEL_FCS_DEV_OTHER c \<Rightarrow> Some (0, s))"

text \<open>The case labels of the switch, in the order of the source.\<close>

definition supported_cmds :: "fcs_cmd list" where
  "supported_cmds =
     [INTEL_FCS_DEV_VALIDATION_REQUEST, INTEL_FCS_DEV_SEND_CERTIFICATE,
      INTEL_FCS_DEV_COUNTER_SET_PREAUTHORIZED, INTEL_FCS_DEV_RANDOM_NUMBER_GEN,
      INTEL_FCS_DEV_GET_PROVISION_DATA, INTEL_FCS_DEV_DATA_ENCRYPTION,
      INTEL_FCS_DEV_DATA_DECRYPTION, INTEL_FCS_DEV_PSGSIGMA_TEARDOWN,
      INTEL_FCS_DEV_CHIP_ID, INTEL_FCS_DEV_ATTESTATION_SUBKEY,
      INTEL_FCS_DEV_ATTESTATION_MEASUREMENT, INTEL_FCS_DEV_ATTESTATION_GET_CERTIFICATE,
      INTEL_FCS_DEV_ATTESTATION_CERTIFICATE_RELOAD, INTEL_FCS_DEV_GET_ROM_PATCH_SHA384]"

subsection \<open>Concrete inputs\<close>

text \<open>
  The state \<open>fcs_driver_probe\<close> leaves behind, with the caller's record \<open>u\<close> in user
  memory.
\<close>

definition probe_priv :: intel_fcs_priv where
  "probe_priv = \<lparr>receive_cb = No_callback, priv_status = INVALID_STATUS, kbuf = None,
     priv_size = 0, cid_low = INVALID_CID, cid_high = INVALID_CID\<rparr>"

definition probe_world :: "intel_fcs_dev_ioctl \<Rightarrow> world" where
  "probe_world u =
     \<lparr>priv = probe_priv, locked = False, trace = [], next_buf = 0, user_arg = u\<rparr>"

text \<open>
  One assignment of the header's constants (status bits 0, 3, 4, 5 and 7, four-byte
  test and reserve words), an environment in which every step succeeds and the channel
  answers neither message in time, and a notification built from its four words.
\<close>

definition sample_hdr :: svc_hdr where
  "sample_hdr = \<lparr>SVC_STATUS_OK = 0, SVC_STATUS_COMPLETED = 3, SVC_STATUS_BUSY = 4,
     SVC_STATUS_ERROR = 5, SVC_STATUS_INVALID_PARAM = 7, tsz = 4, rsz = 4\<rparr>"

definition sample_env :: env where
  "sample_env = \<lparr>kz_data_ok = True, kz_msg_ok = True, copy_in_ok = True, fw = Some 1024,
     s_buf_ok = True, d_buf_ok = True, ps_buf_ok = True, copy_src_ok = True,
     svc1 = TimedOut, svc2 = TimedOut, copy_dst_ok = True, copy_out_ok = True\<rparr>"

definition notification ::
  "u32 \<Rightarrow> u32 option \<Rightarrow> region option \<Rightarrow> u32 option \<Rightarrow> stratix10_svc_cb_data" where
  "notification st a1 a2 a3 = \<lparr>cb_status = st, kaddr1 = a1, kaddr2 = a2, kaddr3 = a3\<rparr>"

text \<open>The commands a trace sends, in order.\<close>

fun sent :: "event list \<Rightarrow> svc_command list" where
  "sent [] = []"
| "sent (EvSend m t # es) = command m # sent es"
| "sent (e # es) = sent es"

text \<open>The lengths of the copies into the caller's response area.\<close>

fun copied :: "event list \<Rightarrow> nat list" where
  "copied [] = []"
| "copied (EvCopyRsp n # es) = n # copied es"
| "copied (e # es) = copied es"

section \<open>Properties\<close>

lemmas fcs_consts =
  RANDOM_NUMBER_SIZE_def PS_BUF_SIZE_def SHA384_SIZE_def INVALID_STATUS_def INVALID_CID_def
  DEC_MIN_SZ_def DEC_MAX_SZ_def ENC_MIN_SZ_def ENC_MAX_SZ_def
  SUBKEY_CMD_MAX_SZ_def SUBKEY_RSP_MAX_SZ_def MEASUREMENT_CMD_MAX_SZ_def
  MEASUREMENT_RSP_MAX_SZ_def CERTIFICATE_RSP_MAX_SZ_def
  SIGMA_SESSION_ID_ONE_def SIGMA_UNKNOWN_SESSION_def

lemmas errno_defs = ENOMEM_def EFAULT_def EINVAL_def ETIMEDOUT_def

lemmas prim_defs =
  fcs_request_service_def stratix10_svc_allocate_memory_def stratix10_svc_free_memory_def
  stratix10_svc_done_def fcs_close_services_def set_receive_cb_def phase_ok_def
  memcpy_rsp_def call_receive_cb_def fcs_data_callback_def fcs_vab_callback_def
  fcs_chipid_callback_def fcs_attestation_callback_def status_is_def BIT_def

lemmas sample_defs =
  sample_hdr_def probe_priv_def probe_world_def sample_env_def notification_def
  zero_data_def zero_msg_def

subsection \<open>The callbacks\<close>

text \<open>
  C7. The data callback. If the status is \<open>OK\<close> or \<open>COMPLETED\<close>, the stored status is
  0 and the result pointer and length are the notification's second word and the value
  behind its third. If the status is \<open>ERROR\<close> (a bit other than those two), the stored
  status is the error code behind the first word, the result pointer is kept, and the
  length is the value behind the third word, or 0 when that is \<open>NULL\<close>. For any other
  status the stored status is \<open>-EINVAL\<close>, the pointer \<open>NULL\<close> and the length 0. The
  words the callback dereferences unguarded are taken to be non-\<open>NULL\<close>.
\<close>

theorem fcs_data_callback_shape:
  "(status_is (cb_status d) (SVC_STATUS_OK K) \<or>
    status_is (cb_status d) (SVC_STATUS_COMPLETED K) \<longrightarrow>
      kaddr3 d = Some n \<longrightarrow>
      fcs_data_callback K d p =
        Some (p\<lparr>priv_status := 0, kbuf := kaddr2 d, priv_size := n\<rparr>))
   \<and> (status_is (cb_status d) (SVC_STATUS_ERROR K) \<longrightarrow>
      BIT (SVC_STATUS_ERROR K) \<noteq> BIT (SVC_STATUS_OK K) \<longrightarrow>
      BIT (SVC_STATUS_ERROR K) \<noteq> BIT (SVC_STATUS_COMPLETED K) \<longrightarrow>
      kaddr1 d = Some e \<longrightarrow>
      fcs_data_callback K d p =
        Some (p\<lparr>priv_status := e, kbuf := kaddr2 d,
                priv_size := (case kaddr3 d of Some m \<Rightarrow> m | None \<Rightarrow> 0)\<rparr>))
   \<and> (\<not> status_is (cb_status d) (SVC_STATUS_OK K) \<longrightarrow>
      \<not> status_is (cb_status d) (SVC_STATUS_COMPLETED K) \<longrightarrow>
      \<not> status_is (cb_status d) (SVC_STATUS_ERROR K) \<longrightarrow>
      fcs_data_callback K d p =
        Some (p\<lparr>priv_status := of_int (- EINVAL), kbuf := None, priv_size := 0\<rparr>))"
  by (auto simp: fcs_data_callback_def status_is_def)

theorem fcs_data_callback_shape_witness:
  "(status_is 8 (SVC_STATUS_COMPLETED sample_hdr) \<and>
    fcs_data_callback sample_hdr (notification 8 None (Some (\<lambda>i. 7)) (Some 32)) probe_priv =
      Some (probe_priv\<lparr>priv_status := 0, kbuf := Some (\<lambda>i. 7), priv_size := 32\<rparr>))
   \<and> (status_is 32 (SVC_STATUS_ERROR sample_hdr) \<and>
      BIT (SVC_STATUS_ERROR sample_hdr) \<noteq> BIT (SVC_STATUS_OK sample_hdr) \<and>
      BIT (SVC_STATUS_ERROR sample_hdr) \<noteq> BIT (SVC_STATUS_COMPLETED sample_hdr) \<and>
      fcs_data_callback sample_hdr (notification 32 (Some 0x3ff) None (Some 4)) probe_priv =
        Some (probe_priv\<lparr>priv_status := 0x3ff, kbuf := None, priv_size := 4\<rparr>))
   \<and> (\<not> status_is 16 (SVC_STATUS_OK sample_hdr) \<and>
      \<not> status_is 16 (SVC_STATUS_COMPLETED sample_hdr) \<and>
      \<not> status_is 16 (SVC_STATUS_ERROR sample_hdr) \<and>
      fcs_data_callback sample_hdr (notification 16 None None None) probe_priv =
        Some (probe_priv\<lparr>priv_status := 0xFFFFFFEA, kbuf := None, priv_size := 0\<rparr>))"
  using
    fcs_data_callback_shape
      [of "notification 8 None (Some (\<lambda>i. 7)) (Some 32)" sample_hdr 32 probe_priv]
    fcs_data_callback_shape
      [of "notification 32 (Some 0x3ff) None (Some 4)" sample_hdr _ probe_priv "0x3ff"]
    fcs_data_callback_shape [of "notification 16 None None None" sample_hdr _ probe_priv]
  by (simp add: status_is_def BIT_def sample_hdr_def notification_def EINVAL_def)

text \<open>
  C6, as the code has it. The attestation callback stores the channel's status
  unchanged only when the status is neither \<open>OK\<close> nor \<open>ERROR\<close>. For \<open>OK\<close> it stores
  0 together with the result pointer and length; for \<open>ERROR\<close> it stores the error
  code behind the first word.
\<close>

theorem fcs_attestation_callback_shape:
  "(\<not> status_is (cb_status d) (SVC_STATUS_OK K) \<longrightarrow>
    \<not> status_is (cb_status d) (SVC_STATUS_ERROR K) \<longrightarrow>
      fcs_attestation_callback K d p = Some (p\<lparr>priv_status := cb_status d\<rparr>))
   \<and> (status_is (cb_status d) (SVC_STATUS_OK K) \<longrightarrow>
      kaddr3 d = Some n \<longrightarrow>
      fcs_attestation_callback K d p =
        Some (p\<lparr>priv_status := 0, kbuf := kaddr2 d, priv_size := n\<rparr>))
   \<and> (status_is (cb_status d) (SVC_STATUS_ERROR K) \<longrightarrow>
      BIT (SVC_STATUS_ERROR K) \<noteq> BIT (SVC_STATUS_OK K) \<longrightarrow>
      kaddr1 d = Some e \<longrightarrow>
      fcs_attestation_callback K d p = Some (p\<lparr>priv_status := e\<rparr>))"
  by (auto simp: fcs_attestation_callback_def status_is_def)

theorem fcs_attestation_callback_shape_witness:
  "(\<not> status_is 16 (SVC_STATUS_OK sample_hdr) \<and>
    \<not> status_is 16 (SVC_STATUS_ERROR sample_hdr) \<and>
    fcs_attestation_callback sample_hdr (notification 16 None None None) probe_priv =
      Some (probe_priv\<lparr>priv_status := 16\<rparr>))
   \<and> (status_is 1 (SVC_STATUS_OK sample_hdr) \<and>
      fcs_attestation_callback sample_hdr (notification 1 None None (Some 820)) probe_priv =
        Some (probe_priv\<lparr>priv_status := 0, kbuf := None, priv_size := 820\<rparr>))
   \<and> (status_is 32 (SVC_STATUS_ERROR sample_hdr) \<and>
      BIT (SVC_STATUS_ERROR sample_hdr) \<noteq> BIT (SVC_STATUS_OK sample_hdr) \<and>
      fcs_attestation_callback sample_hdr (notification 32 (Some 0x3ff) None None) probe_priv =
        Some (probe_priv\<lparr>priv_status := 0x3ff\<rparr>))"
  using
    fcs_attestation_callback_shape [of "notification 16 None None None" sample_hdr probe_priv]
    fcs_attestation_callback_shape
      [of "notification 1 None None (Some 820)" sample_hdr probe_priv 820]
    fcs_attestation_callback_shape
      [of "notification 32 (Some 0x3ff) None None" sample_hdr probe_priv _ "0x3ff"]
  by (simp add: status_is_def BIT_def sample_hdr_def notification_def)

text \<open>
  C6, as stated, fails: a notification whose status is the \<open>OK\<close> bit (the word 1 under
  the sample constants) leaves the stored status 0, not 1.
\<close>

theorem attestation_status_not_verbatim:
  "cb_status (notification 1 None None (Some 820)) = 1 \<and>
   map_option priv_status
     (fcs_attestation_callback sample_hdr (notification 1 None None (Some 820)) probe_priv)
     = Some 0"
  by (simp add: fcs_attestation_callback_def status_is_def BIT_def sample_hdr_def
      notification_def)

subsection \<open>The submit primitive\<close>

text \<open>
  C2 fails on the code. When the channel rejects the message, \<open>fcs_request_service\<close>
  returns \<open>-EINVAL\<close> with the mutex still held: from the state after probe, the call
  returns \<open>-EINVAL\<close> and the lock is taken.
\<close>

theorem rejected_send_keeps_lock:
  "map_option (\<lambda>(r, s'). (r, locked s'))
     (fcs_request_service sample_hdr Rejected zero_msg FCS_REQUEST_TIMEOUT
        (probe_world zero_data))
   = Some (- EINVAL, True)"
  by (simp add: fcs_request_service_def probe_world_def)

text \<open>On the two other exits the lock is released.\<close>

lemma timeout_releases_lock:
  "fcs_request_service K TimedOut m t s = Some (r, s') \<Longrightarrow> r = - ETIMEDOUT \<and> \<not> locked s'"
  by (auto simp: fcs_request_service_def Let_def split: if_splits)

lemma completion_releases_lock:
  "fcs_request_service K (Notified d) m t s = Some (r, s') \<Longrightarrow> r = 0 \<and> \<not> locked s'"
  by (auto simp: fcs_request_service_def Let_def split: if_splits option.splits)

text \<open>After a rejected send, the next submit on the device never returns.\<close>

lemma submit_after_rejected_send:
  "fcs_request_service K Rejected m t s = Some (r, s') \<Longrightarrow>
   fcs_request_service K chan m' t' s' = None"
  by (auto simp: fcs_request_service_def Let_def split: if_splits)

subsection \<open>What the primitives add to the trace\<close>

lemma len_alloc:
  "stratix10_svc_allocate_memory ok n s = (b, s1) \<Longrightarrow>
   length (trace s1) = Suc (length (trace s))"
  by (auto simp: stratix10_svc_allocate_memory_def split: if_splits)

lemma len_free [simp]:
  "length (trace (stratix10_svc_free_memory b s)) = Suc (length (trace s))"
  by (simp add: stratix10_svc_free_memory_def)

lemma len_close [simp]:
  "length (trace (fcs_close_services a b s)) =
     length (trace s) + (case a of None \<Rightarrow> 0 | Some x \<Rightarrow> 1)
       + (case b of None \<Rightarrow> 0 | Some x \<Rightarrow> 1) + 1"
  by (simp add: fcs_close_services_def stratix10_svc_done_def stratix10_svc_free_memory_def
      split: option.splits)

lemma len_request:
  "fcs_request_service K c m t s = Some (r, s') \<Longrightarrow>
   length (trace s') = Suc (length (trace s))"
  by (auto simp: fcs_request_service_def Let_def
      split: if_splits svc_outcome.splits option.splits)

lemma len_memcpy:
  "memcpy_rsp p s = Some s' \<Longrightarrow> length (trace s') = Suc (length (trace s))"
  by (auto simp: memcpy_rsp_def split: if_splits)

lemma memcpy_cmd_Some: "memcpy_cmd p n s = Some s' \<Longrightarrow> s' = s"
  by (auto simp: memcpy_cmd_def split: if_splits)

lemma trace_set_receive_cb [simp]: "trace (set_receive_cb cb s) = trace s"
  by (simp add: set_receive_cb_def)

lemma allocated_append [simp]: "allocated (xs @ ys) = allocated xs @ allocated ys"
  by (induction xs rule: allocated.induct) simp_all

lemma freed_append [simp]: "freed (xs @ ys) = freed xs @ freed ys"
  by (induction xs rule: freed.induct) simp_all

lemma sent_append [simp]: "sent (xs @ ys) = sent xs @ sent ys"
  by (induction xs rule: sent.induct) simp_all

lemma copied_append [simp]: "copied (xs @ ys) = copied xs @ copied ys"
  by (induction xs rule: copied.induct) simp_all

text \<open>
  A request whose sizes pass the checks attempts its first allocation, so it does not
  return in the state it started from.
\<close>

lemma encryption_grows:
  assumes "ioctl_DATA_ENCRYPTION K E s = Some (r, s')"
    and "copy_in_ok E"
    and "DEC_MIN_SZ \<le> unat (src_size (user_arg s))"
    and "unat (src_size (user_arg s)) \<le> DEC_MAX_SZ"
    and "ENC_MIN_SZ \<le> unat (dst_size (user_arg s))"
    and "unat (dst_size (user_arg s)) \<le> ENC_MAX_SZ"
  shows "length (trace s) < length (trace s')"
  using assms unfolding ioctl_DATA_ENCRYPTION_def Let_def
  by (auto simp: bind_eq_Some_conv split: if_splits prod.splits option.splits
      dest!: len_alloc len_request)

lemma decryption_grows:
  assumes "ioctl_DATA_DECRYPTION K E s = Some (r, s')"
    and "copy_in_ok E"
    and "ENC_MIN_SZ \<le> unat (src_size (user_arg s))"
    and "unat (src_size (user_arg s)) \<le> ENC_MAX_SZ"
    and "DEC_MIN_SZ \<le> unat (dst_size (user_arg s))"
    and "unat (dst_size (user_arg s)) \<le> DEC_MAX_SZ"
  shows "length (trace s) < length (trace s')"
  using assms unfolding ioctl_DATA_DECRYPTION_def Let_def
  by (auto simp: bind_eq_Some_conv split: if_splits prod.splits option.splits
      dest!: len_alloc len_request)

lemma subkey_grows:
  assumes "ioctl_ATTESTATION_SUBKEY K E s = Some (r, s')"
    and "copy_in_ok E"
    and "unat (cmd_data_sz (user_arg s)) \<le> SUBKEY_CMD_MAX_SZ"
    and "unat (rsp_data_sz (user_arg s)) \<le> SUBKEY_RSP_MAX_SZ"
  shows "length (trace s) < length (trace s')"
  using assms unfolding ioctl_ATTESTATION_SUBKEY_def Let_def
  by (auto simp: bind_eq_Some_conv split: if_splits prod.splits option.splits
      dest!: len_alloc len_request len_memcpy memcpy_cmd_Some)

lemma measurement_grows:
  assumes "ioctl_ATTESTATION_MEASUREMENT K E s = Some (r, s')"
    and "copy_in_ok E"
    and "unat (cmd_data_sz (user_arg s)) \<le> MEASUREMENT_CMD_MAX_SZ"
    and "unat (rsp_data_sz (user_arg s)) \<le> MEASUREMENT_RSP_MAX_SZ"
  shows "length (trace s) < length (trace s')"
  using assms unfolding ioctl_ATTESTATION_MEASUREMENT_def Let_def
  by (auto simp: bind_eq_Some_conv split: if_splits prod.splits option.splits
      dest!: len_alloc len_request len_memcpy memcpy_cmd_Some)

lemma certificate_grows:
  assumes "ioctl_ATTESTATION_GET_CERTIFICATE K E s = Some (r, s')"
    and "copy_in_ok E"
    and "unat (rsp_data_sz (user_arg s)) \<le> CERTIFICATE_RSP_MAX_SZ"
  shows "length (trace s) < length (trace s')"
  using assms unfolding ioctl_ATTESTATION_GET_CERTIFICATE_def Let_def
  by (auto simp: bind_eq_Some_conv split: if_splits prod.splits option.splits
      dest!: len_alloc len_request len_memcpy)

text \<open>The five size checks, each as the condition under which the request is refused
  with \<open>-EFAULT\<close> in the state it started from.\<close>

lemma encryption_rejected_iff:
  assumes "copy_in_ok E"
  shows "ioctl_DATA_ENCRYPTION K E s = Some (- EFAULT, s) \<longleftrightarrow>
    \<not> (72 \<le> unat (src_size (user_arg s)) \<and> unat (src_size (user_arg s)) \<le> 32712 \<and>
       120 \<le> unat (dst_size (user_arg s)) \<and> unat (dst_size (user_arg s)) \<le> 32760)"
proof (cases "72 \<le> unat (src_size (user_arg s)) \<and> unat (src_size (user_arg s)) \<le> 32712 \<and>
       120 \<le> unat (dst_size (user_arg s)) \<and> unat (dst_size (user_arg s)) \<le> 32760")
  case True
  then have "ioctl_DATA_ENCRYPTION K E s \<noteq> Some (- EFAULT, s)"
    using encryption_grows [of K E s "- EFAULT" s] assms by (auto simp: fcs_consts)
  with True show ?thesis by simp
next
  case False
  then have "ioctl_DATA_ENCRYPTION K E s = Some (- EFAULT, s)"
    using assms by (auto simp: ioctl_DATA_ENCRYPTION_def fcs_consts Let_def)
  with False show ?thesis by simp
qed

lemma decryption_rejected_iff:
  assumes "copy_in_ok E"
  shows "ioctl_DATA_DECRYPTION K E s = Some (- EFAULT, s) \<longleftrightarrow>
    \<not> (120 \<le> unat (src_size (user_arg s)) \<and> unat (src_size (user_arg s)) \<le> 32760 \<and>
       72 \<le> unat (dst_size (user_arg s)) \<and> unat (dst_size (user_arg s)) \<le> 32712)"
proof (cases "120 \<le> unat (src_size (user_arg s)) \<and> unat (src_size (user_arg s)) \<le> 32760 \<and>
       72 \<le> unat (dst_size (user_arg s)) \<and> unat (dst_size (user_arg s)) \<le> 32712")
  case True
  then have "ioctl_DATA_DECRYPTION K E s \<noteq> Some (- EFAULT, s)"
    using decryption_grows [of K E s "- EFAULT" s] assms by (auto simp: fcs_consts)
  with True show ?thesis by simp
next
  case False
  then have "ioctl_DATA_DECRYPTION K E s = Some (- EFAULT, s)"
    using assms by (auto simp: ioctl_DATA_DECRYPTION_def fcs_consts Let_def)
  with False show ?thesis by simp
qed

lemma subkey_rejected_iff:
  assumes "copy_in_ok E"
  shows "ioctl_ATTESTATION_SUBKEY K E s = Some (- EFAULT, s) \<longleftrightarrow>
    \<not> (unat (cmd_data_sz (user_arg s)) \<le> 4092 \<and> unat (rsp_data_sz (user_arg s)) \<le> 820)"
proof (cases "unat (cmd_data_sz (user_arg s)) \<le> 4092 \<and> unat (rsp_data_sz (user_arg s)) \<le> 820")
  case True
  then have "ioctl_ATTESTATION_SUBKEY K E s \<noteq> Some (- EFAULT, s)"
    using subkey_grows [of K E s "- EFAULT" s] assms by (auto simp: fcs_consts)
  with True show ?thesis by simp
next
  case False
  then have "ioctl_ATTESTATION_SUBKEY K E s = Some (- EFAULT, s)"
    using assms by (auto simp: ioctl_ATTESTATION_SUBKEY_def fcs_consts Let_def)
  with False show ?thesis by simp
qed

lemma measurement_rejected_iff:
  assumes "copy_in_ok E"
  shows "ioctl_ATTESTATION_MEASUREMENT K E s = Some (- EFAULT, s) \<longleftrightarrow>
    \<not> (unat (cmd_data_sz (user_arg s)) \<le> 4092 \<and> unat (rsp_data_sz (user_arg s)) \<le> 4092)"
proof (cases "unat (cmd_data_sz (user_arg s)) \<le> 4092 \<and> unat (rsp_data_sz (user_arg s)) \<le> 4092")
  case True
  then have "ioctl_ATTESTATION_MEASUREMENT K E s \<noteq> Some (- EFAULT, s)"
    using measurement_grows [of K E s "- EFAULT" s] assms by (auto simp: fcs_consts)
  with True show ?thesis by simp
next
  case False
  then have "ioctl_ATTESTATION_MEASUREMENT K E s = Some (- EFAULT, s)"
    using assms by (auto simp: ioctl_ATTESTATION_MEASUREMENT_def fcs_consts Let_def)
  with False show ?thesis by simp
qed

lemma certificate_rejected_iff:
  assumes "copy_in_ok E"
  shows "ioctl_ATTESTATION_GET_CERTIFICATE K E s = Some (- EFAULT, s) \<longleftrightarrow>
    \<not> unat (rsp_data_sz (user_arg s)) \<le> 4096"
proof (cases "unat (rsp_data_sz (user_arg s)) \<le> 4096")
  case True
  then have "ioctl_ATTESTATION_GET_CERTIFICATE K E s \<noteq> Some (- EFAULT, s)"
    using certificate_grows [of K E s "- EFAULT" s] assms by (auto simp: fcs_consts)
  with True show ?thesis by simp
next
  case False
  then have "ioctl_ATTESTATION_GET_CERTIFICATE K E s = Some (- EFAULT, s)"
    using assms by (auto simp: ioctl_ATTESTATION_GET_CERTIFICATE_def fcs_consts Let_def)
  with False show ?thesis by simp
qed

text \<open>The two fixed-size requests: the buffer and the message length do not depend on
  the caller's record.\<close>

lemma random_number_fixed_size:
  assumes "ioctl_RANDOM_NUMBER_GEN K E s = Some (r, s')" and "copy_in_ok E" and "s_buf_ok E"
  shows "\<exists>rest. trace s' = trace s @
           EvAlloc (next_buf s) 32 #
           EvSend (zero_msg\<lparr>command := COMMAND_FCS_RANDOM_NUMBER_GEN,
                     payload := Some (next_buf s), payload_length := 32\<rparr>)
             FCS_REQUEST_TIMEOUT # rest"
  using assms unfolding ioctl_RANDOM_NUMBER_GEN_def Let_def
  by (auto simp: bind_eq_Some_conv prim_defs fcs_consts Let_def
      split: if_splits prod.splits option.splits svc_outcome.splits)

lemma rom_patch_digest_fixed_size:
  assumes "ioctl_GET_ROM_PATCH_SHA384 K E s = Some (r, s')" and "copy_in_ok E" and "s_buf_ok E"
  shows "\<exists>rest. trace s' = trace s @
           EvAlloc (next_buf s) 48 #
           EvSend (zero_msg\<lparr>command := COMMAND_FCS_GET_ROM_PATCH_SHA384,
                     payload := Some (next_buf s), payload_length := 48\<rparr>)
             FCS_REQUEST_TIMEOUT # rest"
  using assms unfolding ioctl_GET_ROM_PATCH_SHA384_def Let_def
  by (auto simp: bind_eq_Some_conv prim_defs fcs_consts Let_def
      split: if_splits prod.splits option.splits svc_outcome.splits)

lemmas step_defs =
  fcs_request_service_def stratix10_svc_allocate_memory_def stratix10_svc_free_memory_def
  stratix10_svc_done_def fcs_close_services_def set_receive_cb_def phase_ok_def
  memcpy_rsp_def memcpy_cmd_def call_receive_cb_def

subsection \<open>Size checks\<close>

text \<open>
  C4, as the code has it. With the request record read, a request is refused with
  \<open>-EFAULT\<close>, in the state it started from, exactly when a caller-supplied size is
  outside its bound: for data encryption the source must lie in 72..32712 and the
  destination in 120..32760; for data decryption the source must lie in 120..32760 and
  the destination in 72..32712; the attestation sub-key command is at most 4092 and its
  response at most 820; the measurement command and response are at most 4092 each; the
  certificate response is at most 4096. The random-number request allocates 32 bytes and
  sends a message of length 32, the ROM-patch-digest request 48 and 48, whatever the
  caller's record holds.
\<close>

theorem size_bounds_enforced:
  assumes "kz_data_ok E" and "kz_msg_ok E" and "copy_in_ok E"
  shows
    "(fcs_ioctl K E INTEL_FCS_DEV_DATA_ENCRYPTION s = Some (- EFAULT, s) \<longleftrightarrow>
        \<not> (72 \<le> unat (src_size (user_arg s)) \<and> unat (src_size (user_arg s)) \<le> 32712 \<and>
           120 \<le> unat (dst_size (user_arg s)) \<and> unat (dst_size (user_arg s)) \<le> 32760))
     \<and> (fcs_ioctl K E INTEL_FCS_DEV_DATA_DECRYPTION s = Some (- EFAULT, s) \<longleftrightarrow>
        \<not> (120 \<le> unat (src_size (user_arg s)) \<and> unat (src_size (user_arg s)) \<le> 32760 \<and>
           72 \<le> unat (dst_size (user_arg s)) \<and> unat (dst_size (user_arg s)) \<le> 32712))
     \<and> (fcs_ioctl K E INTEL_FCS_DEV_ATTESTATION_SUBKEY s = Some (- EFAULT, s) \<longleftrightarrow>
        \<not> (unat (cmd_data_sz (user_arg s)) \<le> 4092 \<and> unat (rsp_data_sz (user_arg s)) \<le> 820))
     \<and> (fcs_ioctl K E INTEL_FCS_DEV_ATTESTATION_MEASUREMENT s = Some (- EFAULT, s) \<longleftrightarrow>
        \<not> (unat (cmd_data_sz (user_arg s)) \<le> 4092 \<and> unat (rsp_data_sz (user_arg s)) \<le> 4092))
     \<and> (fcs_ioctl K E INTEL_FCS_DEV_ATTESTATION_GET_CERTIFICATE s = Some (- EFAULT, s) \<longleftrightarrow>
        \<not> unat (rsp_data_sz (user_arg s)) \<le> 4096)
     \<and> (\<forall>r s'. s_buf_ok E \<longrightarrow>
          fcs_ioctl K E INTEL_FCS_DEV_RANDOM_NUMBER_GEN s = Some (r, s') \<longrightarrow>
          (\<exists>rest. trace s' = trace s @
             EvAlloc (next_buf s) 32 #
             EvSend (zero_msg\<lparr>command := COMMAND_FCS_RANDOM_NUMBER_GEN,
                       payload := Some (next_buf s), payload_length := 32\<rparr>)
               FCS_REQUEST_TIMEOUT # rest))
     \<and> (\<forall>r s'. s_buf_ok E \<longrightarrow>
          fcs_ioctl K E INTEL_FCS_DEV_GET_ROM_PATCH_SHA384 s = Some (r, s') \<longrightarrow>
          (\<exists>rest. trace s' = trace s @
             EvAlloc (next_buf s) 48 #
             EvSend (zero_msg\<lparr>command := COMMAND_FCS_GET_ROM_PATCH_SHA384,
                       payload := Some (next_buf s), payload_length := 48\<rparr>)
               FCS_REQUEST_TIMEOUT # rest))"
proof -
  have sw: "fcs_ioctl K E INTEL_FCS_DEV_DATA_ENCRYPTION s = ioctl_DATA_ENCRYPTION K E s"
    "fcs_ioctl K E INTEL_FCS_DEV_DATA_DECRYPTION s = ioctl_DATA_DECRYPTION K E s"
    "fcs_ioctl K E INTEL_FCS_DEV_ATTESTATION_SUBKEY s = ioctl_ATTESTATION_SUBKEY K E s"
    "fcs_ioctl K E INTEL_FCS_DEV_ATTESTATION_MEASUREMENT s = ioctl_ATTESTATION_MEASUREMENT K E s"
    "fcs_ioctl K E INTEL_FCS_DEV_ATTESTATION_GET_CERTIFICATE s =
       ioctl_ATTESTATION_GET_CERTIFICATE K E s"
    "fcs_ioctl K E INTEL_FCS_DEV_RANDOM_NUMBER_GEN s = ioctl_RANDOM_NUMBER_GEN K E s"
    "fcs_ioctl K E INTEL_FCS_DEV_GET_ROM_PATCH_SHA384 s = ioctl_GET_ROM_PATCH_SHA384 K E s"
    using assms by (simp_all add: fcs_ioctl_def)
  show ?thesis
    unfolding sw
    using encryption_rejected_iff [OF assms(3), of K s]
      decryption_rejected_iff [OF assms(3), of K s]
      subkey_rejected_iff [OF assms(3), of K s]
      measurement_rejected_iff [OF assms(3), of K s]
      certificate_rejected_iff [OF assms(3), of K s]
      random_number_fixed_size [of K E s, OF _ assms(3)]
      rom_patch_digest_fixed_size [of K E s, OF _ assms(3)]
    by blast
qed

theorem size_bounds_enforced_witness:
  "fcs_ioctl sample_hdr sample_env INTEL_FCS_DEV_DATA_DECRYPTION
     (probe_world (zero_data\<lparr>src_size := 119, dst_size := 72\<rparr>)) =
     Some (- EFAULT, probe_world (zero_data\<lparr>src_size := 119, dst_size := 72\<rparr>))
   \<and> fcs_ioctl sample_hdr sample_env INTEL_FCS_DEV_DATA_DECRYPTION
     (probe_world (zero_data\<lparr>src_size := 120, dst_size := 72\<rparr>)) \<noteq>
     Some (- EFAULT, probe_world (zero_data\<lparr>src_size := 120, dst_size := 72\<rparr>))
   \<and> fcs_ioctl sample_hdr sample_env INTEL_FCS_DEV_ATTESTATION_SUBKEY
     (probe_world (zero_data\<lparr>cmd_data_sz := 4093\<rparr>)) =
     Some (- EFAULT, probe_world (zero_data\<lparr>cmd_data_sz := 4093\<rparr>))
   \<and> (\<exists>r s' rest.
        fcs_ioctl sample_hdr sample_env INTEL_FCS_DEV_RANDOM_NUMBER_GEN
          (probe_world (zero_data\<lparr>gp_size := 4000\<rparr>)) = Some (r, s') \<and>
        trace s' =
          EvAlloc 0 32 #
          EvSend (zero_msg\<lparr>command := COMMAND_FCS_RANDOM_NUMBER_GEN,
                    payload := Some 0, payload_length := 32\<rparr>)
            FCS_REQUEST_TIMEOUT # rest)"
proof -
  have env: "kz_data_ok sample_env" "kz_msg_ok sample_env" "copy_in_ok sample_env"
    "s_buf_ok sample_env"
    by (simp_all add: sample_env_def)
  note a = size_bounds_enforced [OF env(1-3), of sample_hdr
      "probe_world (zero_data\<lparr>src_size := 119, dst_size := 72\<rparr>)"]
  note b = size_bounds_enforced [OF env(1-3), of sample_hdr
      "probe_world (zero_data\<lparr>src_size := 120, dst_size := 72\<rparr>)"]
  note c = size_bounds_enforced [OF env(1-3), of sample_hdr
      "probe_world (zero_data\<lparr>cmd_data_sz := 4093\<rparr>)"]
  note d = size_bounds_enforced [OF env(1-3), of sample_hdr
      "probe_world (zero_data\<lparr>gp_size := 4000\<rparr>)"]
  have run: "\<exists>r s'. fcs_ioctl sample_hdr sample_env INTEL_FCS_DEV_RANDOM_NUMBER_GEN
      (probe_world (zero_data\<lparr>gp_size := 4000\<rparr>)) = Some (r, s')"
    by (simp add: fcs_ioctl_def ioctl_RANDOM_NUMBER_GEN_def step_defs sample_defs
        fcs_consts errno_defs Let_def)
  have 1: "fcs_ioctl sample_hdr sample_env INTEL_FCS_DEV_DATA_DECRYPTION
     (probe_world (zero_data\<lparr>src_size := 119, dst_size := 72\<rparr>)) =
     Some (- EFAULT, probe_world (zero_data\<lparr>src_size := 119, dst_size := 72\<rparr>))"
    using a by (simp add: probe_world_def zero_data_def)
  have 2: "fcs_ioctl sample_hdr sample_env INTEL_FCS_DEV_DATA_DECRYPTION
     (probe_world (zero_data\<lparr>src_size := 120, dst_size := 72\<rparr>)) \<noteq>
     Some (- EFAULT, probe_world (zero_data\<lparr>src_size := 120, dst_size := 72\<rparr>))"
    using b by (simp add: probe_world_def zero_data_def)
  have 3: "fcs_ioctl sample_hdr sample_env INTEL_FCS_DEV_ATTESTATION_SUBKEY
     (probe_world (zero_data\<lparr>cmd_data_sz := 4093\<rparr>)) =
     Some (- EFAULT, probe_world (zero_data\<lparr>cmd_data_sz := 4093\<rparr>))"
    using c by (simp add: probe_world_def zero_data_def)
  have 4: "\<exists>r s' rest.
        fcs_ioctl sample_hdr sample_env INTEL_FCS_DEV_RANDOM_NUMBER_GEN
          (probe_world (zero_data\<lparr>gp_size := 4000\<rparr>)) = Some (r, s') \<and>
        trace s' =
          EvAlloc 0 32 #
          EvSend (zero_msg\<lparr>command := COMMAND_FCS_RANDOM_NUMBER_GEN,
                    payload := Some 0, payload_length := 32\<rparr>)
            FCS_REQUEST_TIMEOUT # rest"
  proof -
    from run obtain r s' where rs:
      "fcs_ioctl sample_hdr sample_env INTEL_FCS_DEV_RANDOM_NUMBER_GEN
         (probe_world (zero_data\<lparr>gp_size := 4000\<rparr>)) = Some (r, s')"
      by blast
    with d env(4) obtain rest where
      "trace s' = trace (probe_world (zero_data\<lparr>gp_size := 4000\<rparr>)) @
         EvAlloc (next_buf (probe_world (zero_data\<lparr>gp_size := 4000\<rparr>))) 32 #
         EvSend (zero_msg\<lparr>command := COMMAND_FCS_RANDOM_NUMBER_GEN,
                   payload := Some (next_buf (probe_world (zero_data\<lparr>gp_size := 4000\<rparr>))),
                   payload_length := 32\<rparr>)
           FCS_REQUEST_TIMEOUT # rest"
      by blast
    then have "trace s' =
          EvAlloc 0 32 #
          EvSend (zero_msg\<lparr>command := COMMAND_FCS_RANDOM_NUMBER_GEN,
                    payload := Some 0, payload_length := 32\<rparr>)
            FCS_REQUEST_TIMEOUT # rest"
      by (simp add: probe_world_def)
    with rs show ?thesis by blast
  qed
  from 1 2 3 4 show ?thesis by blast
qed

text \<open>
  C4, as stated, fails for the decryption source: a decryption request with source
  size 72 (inside 72..32712) and destination size 72 is refused, and one with source
  size 32760 (outside 72..32712) passes the checks and goes on to allocate its three
  buffers.
\<close>

theorem decryption_source_bounds_differ:
  "fcs_ioctl sample_hdr sample_env INTEL_FCS_DEV_DATA_DECRYPTION
     (probe_world (zero_data\<lparr>src_size := 72, dst_size := 72\<rparr>)) =
     Some (- EFAULT, probe_world (zero_data\<lparr>src_size := 72, dst_size := 72\<rparr>))
   \<and> map_option (\<lambda>(r, s'). (r, allocated (trace s'), sent (trace s')))
       (fcs_ioctl sample_hdr sample_env INTEL_FCS_DEV_DATA_DECRYPTION
          (probe_world (zero_data\<lparr>src_size := 32760, dst_size := 72\<rparr>))) =
     Some (- ETIMEDOUT, [0, 1, 2], [COMMAND_FCS_DATA_DECRYPTION])"
  by (simp add: fcs_ioctl_def ioctl_DATA_DECRYPTION_def step_defs sample_defs fcs_consts
      errno_defs Let_def)

text \<open>
  C5, as the code has it. For each request with static size bounds, a size outside
  its bound makes the call return \<open>-EFAULT\<close> in the state it started from: nothing has
  been allocated, nothing sent, the caller's record is untouched.
\<close>

theorem out_of_range_rejected_before_allocation:
  assumes "kz_data_ok E" and "kz_msg_ok E" and "copy_in_ok E"
  shows
    "(\<not> (72 \<le> unat (src_size (user_arg s)) \<and> unat (src_size (user_arg s)) \<le> 32712 \<and>
         120 \<le> unat (dst_size (user_arg s)) \<and> unat (dst_size (user_arg s)) \<le> 32760) \<longrightarrow>
        fcs_ioctl K E INTEL_FCS_DEV_DATA_ENCRYPTION s = Some (- EFAULT, s))
     \<and> (\<not> (120 \<le> unat (src_size (user_arg s)) \<and> unat (src_size (user_arg s)) \<le> 32760 \<and>
         72 \<le> unat (dst_size (user_arg s)) \<and> unat (dst_size (user_arg s)) \<le> 32712) \<longrightarrow>
        fcs_ioctl K E INTEL_FCS_DEV_DATA_DECRYPTION s = Some (- EFAULT, s))
     \<and> (4092 < unat (cmd_data_sz (user_arg s)) \<or> 820 < unat (rsp_data_sz (user_arg s)) \<longrightarrow>
        fcs_ioctl K E INTEL_FCS_DEV_ATTESTATION_SUBKEY s = Some (- EFAULT, s))
     \<and> (4092 < unat (cmd_data_sz (user_arg s)) \<or> 4092 < unat (rsp_data_sz (user_arg s)) \<longrightarrow>
        fcs_ioctl K E INTEL_FCS_DEV_ATTESTATION_MEASUREMENT s = Some (- EFAULT, s))
     \<and> (4096 < unat (rsp_data_sz (user_arg s)) \<longrightarrow>
        fcs_ioctl K E INTEL_FCS_DEV_ATTESTATION_GET_CERTIFICATE s = Some (- EFAULT, s))"
  using assms
    encryption_rejected_iff [OF assms(3), of K s]
    decryption_rejected_iff [OF assms(3), of K s]
    subkey_rejected_iff [OF assms(3), of K s]
    measurement_rejected_iff [OF assms(3), of K s]
    certificate_rejected_iff [OF assms(3), of K s]
  by (auto simp: fcs_ioctl_def)

theorem out_of_range_rejected_before_allocation_witness:
  "kz_data_ok sample_env \<and> kz_msg_ok sample_env \<and> copy_in_ok sample_env \<and>
   fcs_ioctl sample_hdr sample_env INTEL_FCS_DEV_DATA_DECRYPTION
     (probe_world (zero_data\<lparr>src_size := 71, dst_size := 72\<rparr>)) =
     Some (- EFAULT, probe_world (zero_data\<lparr>src_size := 71, dst_size := 72\<rparr>))
   \<and> fcs_ioctl sample_hdr sample_env INTEL_FCS_DEV_DATA_ENCRYPTION
     (probe_world (zero_data\<lparr>src_size := 71, dst_size := 120\<rparr>)) =
     Some (- EFAULT, probe_world (zero_data\<lparr>src_size := 71, dst_size := 120\<rparr>))
   \<and> fcs_ioctl sample_hdr sample_env INTEL_FCS_DEV_ATTESTATION_SUBKEY
     (probe_world (zero_data\<lparr>cmd_data_sz := 4093\<rparr>)) =
     Some (- EFAULT, probe_world (zero_data\<lparr>cmd_data_sz := 4093\<rparr>))
   \<and> fcs_ioctl sample_hdr sample_env INTEL_FCS_DEV_ATTESTATION_MEASUREMENT
     (probe_world (zero_data\<lparr>rsp_data_sz := 4093\<rparr>)) =
     Some (- EFAULT, probe_world (zero_data\<lparr>rsp_data_sz := 4093\<rparr>))
   \<and> fcs_ioctl sample_hdr sample_env INTEL_FCS_DEV_ATTESTATION_GET_CERTIFICATE
     (probe_world (zero_data\<lparr>rsp_data_sz := 4097\<rparr>)) =
     Some (- EFAULT, probe_world (zero_data\<lparr>rsp_data_sz := 4097\<rparr>))"
proof -
  have env: "kz_data_ok sample_env" "kz_msg_ok sample_env" "copy_in_ok sample_env"
    by (simp_all add: sample_env_def)
  show ?thesis
    using env
      out_of_range_rejected_before_allocation [OF env, of
        "probe_world (zero_data\<lparr>src_size := 71, dst_size := 72\<rparr>)" sample_hdr]
      out_of_range_rejected_before_allocation [OF env, of
        "probe_world (zero_data\<lparr>src_size := 71, dst_size := 120\<rparr>)" sample_hdr]
      out_of_range_rejected_before_allocation [OF env, of
        "probe_world (zero_data\<lparr>cmd_data_sz := 4093\<rparr>)" sample_hdr]
      out_of_range_rejected_before_allocation [OF env, of
        "probe_world (zero_data\<lparr>rsp_data_sz := 4093\<rparr>)" sample_hdr]
      out_of_range_rejected_before_allocation [OF env, of
        "probe_world (zero_data\<lparr>rsp_data_sz := 4097\<rparr>)" sample_hdr]
    by (simp add: probe_world_def zero_data_def)
qed

text \<open>
  C5, as stated, fails on the error value: a decryption request with source size 71 is
  refused before any allocation, with \<open>-EFAULT\<close>, which is not the driver's
  invalid-parameter value \<open>-EINVAL\<close>.
\<close>

theorem out_of_range_is_EFAULT:
  "fcs_ioctl sample_hdr sample_env INTEL_FCS_DEV_DATA_DECRYPTION
     (probe_world (zero_data\<lparr>src_size := 71, dst_size := 72\<rparr>)) =
     Some (- EFAULT, probe_world (zero_data\<lparr>src_size := 71, dst_size := 72\<rparr>))
   \<and> - EFAULT \<noteq> - EINVAL"
  by (simp add: fcs_ioctl_def ioctl_DATA_DECRYPTION_def sample_defs fcs_consts errno_defs)

subsection \<open>Attestation responses\<close>

text \<open>
  C9. In the sub-key, measurement and get-certificate requests, once the first message
  has completed with stored status 0, the stored response size is compared with the
  request's maximum (820, 4092, 4096) before anything is copied into the caller's
  response area. Above the maximum the call returns \<open>-EFAULT\<close>, no copy into the
  response area is made, the caller's record is not written, and each buffer the
  request allocated is freed once. Up to the maximum the response is copied, in the
  stored size, and the call succeeds. The request is one that gets as far as the send:
  its sizes pass the checks, its buffers are allocated, and the command copy of the
  sub-key and measurement requests does not fault (the caller's command pointer is not
  \<open>NULL\<close> unless the command is empty).
\<close>

theorem attestation_response_size_check:
  assumes "kz_data_ok E" and "kz_msg_ok E" and "copy_in_ok E"
    and "s_buf_ok E" and "d_buf_ok E" and "\<not> locked s"
    and "svc1 E = Notified d"
    and "fcs_attestation_callback K d ((priv s)\<lparr>receive_cb := Fcs_attestation_callback\<rparr>)
           = Some p"
    and "priv_status p = 0"
  shows
    "(unat (cmd_data_sz (user_arg s)) \<le> 4092 \<longrightarrow>
      (cmd_data (user_arg s) = None \<longrightarrow> cmd_data_sz (user_arg s) = 0) \<longrightarrow>
      unat (rsp_data_sz (user_arg s)) \<le> 820 \<longrightarrow>
        (820 < unat (priv_size p) \<longrightarrow>
           (\<exists>s'. fcs_ioctl K E INTEL_FCS_DEV_ATTESTATION_SUBKEY s = Some (- EFAULT, s') \<and>
              copied (trace s') = copied (trace s) \<and> user_arg s' = user_arg s \<and>
              allocated (trace s') = allocated (trace s) @ [next_buf s, Suc (next_buf s)] \<and>
              freed (trace s') = freed (trace s) @ [next_buf s, Suc (next_buf s)]))
        \<and> (unat (priv_size p) \<le> 820 \<longrightarrow>
           (kbuf p = None \<or> rsp_data (user_arg s) = None \<longrightarrow> priv_size p = 0) \<longrightarrow>
           copy_out_ok E \<longrightarrow>
           (\<exists>s'. fcs_ioctl K E INTEL_FCS_DEV_ATTESTATION_SUBKEY s = Some (0, s') \<and>
              copied (trace s') = copied (trace s) @ [unat (priv_size p)] \<and>
              rsp_data_sz (user_arg s') = priv_size p \<and> d_status (user_arg s') = 0 \<and>
              allocated (trace s') = allocated (trace s) @ [next_buf s, Suc (next_buf s)] \<and>
              freed (trace s') = freed (trace s) @ [next_buf s, Suc (next_buf s)])))
     \<and> (unat (cmd_data_sz (user_arg s)) \<le> 4092 \<longrightarrow>
      (cmd_data (user_arg s) = None \<longrightarrow> cmd_data_sz (user_arg s) = 0) \<longrightarrow>
      unat (rsp_data_sz (user_arg s)) \<le> 4092 \<longrightarrow>
        (4092 < unat (priv_size p) \<longrightarrow>
           (\<exists>s'. fcs_ioctl K E INTEL_FCS_DEV_ATTESTATION_MEASUREMENT s = Some (- EFAULT, s') \<and>
              copied (trace s') = copied (trace s) \<and> user_arg s' = user_arg s \<and>
              allocated (trace s') = allocated (trace s) @ [next_buf s, Suc (next_buf s)] \<and>
              freed (trace s') = freed (trace s) @ [next_buf s, Suc (next_buf s)]))
        \<and> (unat (priv_size p) \<le> 4092 \<longrightarrow>
           (kbuf p = None \<or> rsp_data (user_arg s) = None \<longrightarrow> priv_size p = 0) \<longrightarrow>
           copy_out_ok E \<longrightarrow>
           (\<exists>s'. fcs_ioctl K E INTEL_FCS_DEV_ATTESTATION_MEASUREMENT s = Some (0, s') \<and>
              copied (trace s') = copied (trace s) @ [unat (priv_size p)] \<and>
              rsp_data_sz (user_arg s') = priv_size p \<and> d_status (user_arg s') = 0 \<and>
              allocated (trace s') = allocated (trace s) @ [next_buf s, Suc (next_buf s)] \<and>
              freed (trace s') = freed (trace s) @ [next_buf s, Suc (next_buf s)])))
     \<and> (unat (rsp_data_sz (user_arg s)) \<le> 4096 \<longrightarrow>
        (4096 < unat (priv_size p) \<longrightarrow>
           (\<exists>s'. fcs_ioctl K E INTEL_FCS_DEV_ATTESTATION_GET_CERTIFICATE s = Some (- EFAULT, s') \<and>
              copied (trace s') = copied (trace s) \<and> user_arg s' = user_arg s \<and>
              allocated (trace s') = allocated (trace s) @ [next_buf s] \<and>
              freed (trace s') = freed (trace s) @ [next_buf s]))
        \<and> (unat (priv_size p) \<le> 4096 \<longrightarrow>
           (kbuf p = None \<or> rsp_data (user_arg s) = None \<longrightarrow> priv_size p = 0) \<longrightarrow>
           copy_out_ok E \<longrightarrow>
           (\<exists>s'. fcs_ioctl K E INTEL_FCS_DEV_ATTESTATION_GET_CERTIFICATE s = Some (0, s') \<and>
              copied (trace s') = copied (trace s) @ [unat (priv_size p)] \<and>
              rsp_data_sz (user_arg s') = priv_size p \<and> d_status (user_arg s') = 0 \<and>
              allocated (trace s') = allocated (trace s) @ [next_buf s] \<and>
              freed (trace s') = freed (trace s) @ [next_buf s])))"
  using assms
  by (auto simp: fcs_ioctl_def ioctl_ATTESTATION_SUBKEY_def ioctl_ATTESTATION_MEASUREMENT_def
      ioctl_ATTESTATION_GET_CERTIFICATE_def step_defs fcs_consts Let_def)

theorem attestation_response_size_check_witness:
  "(\<exists>s'. fcs_ioctl sample_hdr
          (sample_env\<lparr>svc1 := Notified (notification 1 None (Some (\<lambda>i. 0)) (Some 821))\<rparr>)
          INTEL_FCS_DEV_ATTESTATION_SUBKEY (probe_world (zero_data\<lparr>cmd_data := Some 4096, cmd_data_sz := 16, rsp_data := Some 8192\<rparr>)) = Some (- EFAULT, s') \<and>
        copied (trace s') = [] \<and>
        user_arg s' = zero_data\<lparr>cmd_data := Some 4096, cmd_data_sz := 16, rsp_data := Some 8192\<rparr> \<and>
        allocated (trace s') = [0, 1] \<and> freed (trace s') = [0, 1])
   \<and> (\<exists>s'. fcs_ioctl sample_hdr
          (sample_env\<lparr>svc1 := Notified (notification 1 None (Some (\<lambda>i. 0)) (Some 820))\<rparr>)
          INTEL_FCS_DEV_ATTESTATION_SUBKEY (probe_world (zero_data\<lparr>cmd_data := Some 4096, cmd_data_sz := 16, rsp_data := Some 8192\<rparr>)) = Some (0, s') \<and>
        copied (trace s') = [820] \<and>
        rsp_data_sz (user_arg s') = 820 \<and> d_status (user_arg s') = 0 \<and>
        allocated (trace s') = [0, 1] \<and> freed (trace s') = [0, 1])
   \<and> (\<exists>s'. fcs_ioctl sample_hdr
          (sample_env\<lparr>svc1 := Notified (notification 1 None (Some (\<lambda>i. 0)) (Some 4093))\<rparr>)
          INTEL_FCS_DEV_ATTESTATION_MEASUREMENT (probe_world (zero_data\<lparr>cmd_data := Some 4096, cmd_data_sz := 16, rsp_data := Some 8192\<rparr>)) = Some (- EFAULT, s') \<and>
        copied (trace s') = [] \<and>
        user_arg s' = zero_data\<lparr>cmd_data := Some 4096, cmd_data_sz := 16, rsp_data := Some 8192\<rparr> \<and>
        allocated (trace s') = [0, 1] \<and> freed (trace s') = [0, 1])
   \<and> (\<exists>s'. fcs_ioctl sample_hdr
          (sample_env\<lparr>svc1 := Notified (notification 1 None (Some (\<lambda>i. 0)) (Some 4092))\<rparr>)
          INTEL_FCS_DEV_ATTESTATION_MEASUREMENT (probe_world (zero_data\<lparr>cmd_data := Some 4096, cmd_data_sz := 16, rsp_data := Some 8192\<rparr>)) = Some (0, s') \<and>
        copied (trace s') = [4092] \<and>
        rsp_data_sz (user_arg s') = 4092 \<and> d_status (user_arg s') = 0 \<and>
        allocated (trace s') = [0, 1] \<and> freed (trace s') = [0, 1])
   \<and> (\<exists>s'. fcs_ioctl sample_hdr
          (sample_env\<lparr>svc1 := Notified (notification 1 None (Some (\<lambda>i. 0)) (Some 4097))\<rparr>)
          INTEL_FCS_DEV_ATTESTATION_GET_CERTIFICATE (probe_world (zero_data\<lparr>cmd_data := Some 4096, cmd_data_sz := 16, rsp_data := Some 8192\<rparr>)) = Some (- EFAULT, s') \<and>
        copied (trace s') = [] \<and>
        user_arg s' = zero_data\<lparr>cmd_data := Some 4096, cmd_data_sz := 16, rsp_data := Some 8192\<rparr> \<and>
        allocated (trace s') = [0] \<and> freed (trace s') = [0])
   \<and> (\<exists>s'. fcs_ioctl sample_hdr
          (sample_env\<lparr>svc1 := Notified (notification 1 None (Some (\<lambda>i. 0)) (Some 4096))\<rparr>)
          INTEL_FCS_DEV_ATTESTATION_GET_CERTIFICATE (probe_world (zero_data\<lparr>cmd_data := Some 4096, cmd_data_sz := 16, rsp_data := Some 8192\<rparr>)) = Some (0, s') \<and>
        copied (trace s') = [4096] \<and>
        rsp_data_sz (user_arg s') = 4096 \<and> d_status (user_arg s') = 0 \<and>
        allocated (trace s') = [0] \<and> freed (trace s') = [0])"
proof -
  let ?E = "\<lambda>n. sample_env\<lparr>svc1 := Notified (notification 1 None (Some (\<lambda>i. 0)) (Some n))\<rparr>"
  let ?p = "\<lambda>n. probe_priv\<lparr>receive_cb := Fcs_attestation_callback, priv_status := 0,
              kbuf := Some (\<lambda>i. 0), priv_size := n\<rparr>"
  let ?s = "probe_world (zero_data\<lparr>cmd_data := Some 4096, cmd_data_sz := 16, rsp_data := Some 8192\<rparr>)"
  have env: "kz_data_ok (?E n)" "kz_msg_ok (?E n)" "copy_in_ok (?E n)" "s_buf_ok (?E n)"
    "d_buf_ok (?E n)" "\<not> locked ?s"
    "svc1 (?E n) = Notified (notification 1 None (Some (\<lambda>i. 0)) (Some n))" for n
    by (simp_all add: sample_env_def probe_world_def)
  have cb: "fcs_attestation_callback sample_hdr (notification 1 None (Some (\<lambda>i. 0)) (Some n))
      ((priv ?s)\<lparr>receive_cb := Fcs_attestation_callback\<rparr>) = Some (?p n)" for n
    by (simp add: fcs_attestation_callback_def status_is_def BIT_def sample_hdr_def
        notification_def probe_world_def probe_priv_def)
  have st: "priv_status (?p n) = 0" for n by simp
  have out: "copy_out_ok (?E n)" for n by (simp add: sample_env_def)
  note th = attestation_response_size_check [OF env cb st]
  show ?thesis
    using th [of 821] th [of 820] th [of 4093] th [of 4092] th [of 4097] th [of 4096]
      out [of 820] out [of 4092] out [of 4096]
    by (simp add: probe_world_def zero_data_def)
qed

text \<open>A sub-key or measurement request with a non-empty command behind a \<open>NULL\<close> pointer
  faults in the command copy, after its two buffers are allocated and before the send.\<close>

lemma attestation_null_command_faults:
  assumes "kz_data_ok E" and "kz_msg_ok E" and "copy_in_ok E"
    and "s_buf_ok E" and "d_buf_ok E"
    and "cmd_data (user_arg s) = None" and "cmd_data_sz (user_arg s) \<noteq> 0"
    and "unat (cmd_data_sz (user_arg s)) \<le> 4092"
  shows "(unat (rsp_data_sz (user_arg s)) \<le> 820 \<longrightarrow>
            fcs_ioctl K E INTEL_FCS_DEV_ATTESTATION_SUBKEY s = None)
       \<and> (unat (rsp_data_sz (user_arg s)) \<le> 4092 \<longrightarrow>
            fcs_ioctl K E INTEL_FCS_DEV_ATTESTATION_MEASUREMENT s = None)"
  using assms
  by (simp add: fcs_ioctl_def ioctl_ATTESTATION_SUBKEY_def ioctl_ATTESTATION_MEASUREMENT_def
      stratix10_svc_allocate_memory_def memcpy_cmd_def fcs_consts Let_def)

subsection \<open>Unsupported commands\<close>

text \<open>
  C10, as the code has it. The switch has fourteen case labels. For a command code
  that is none of them, the call returns 0 in the state it started from (nothing
  allocated from the pool, nothing sent) when both \<open>devm_kzalloc\<close> calls succeeded, and
  \<open>-ENOMEM\<close>, again in the state it started from, when one of them failed.
\<close>

theorem unsupported_cmd:
  "length supported_cmds = 14 \<and> distinct supported_cmds
   \<and> (cmd \<notin> set supported_cmds \<longrightarrow> kz_data_ok E \<longrightarrow> kz_msg_ok E \<longrightarrow>
        fcs_ioctl K E cmd s = Some (0, s))
   \<and> (cmd \<notin> set supported_cmds \<longrightarrow> \<not> (kz_data_ok E \<and> kz_msg_ok E) \<longrightarrow>
        fcs_ioctl K E cmd s = Some (- ENOMEM, s))"
  by (cases cmd) (auto simp: supported_cmds_def fcs_ioctl_def)

theorem unsupported_cmd_witness:
  "INTEL_FCS_DEV_OTHER 0x1234 \<notin> set supported_cmds
   \<and> kz_data_ok sample_env \<and> kz_msg_ok sample_env
   \<and> fcs_ioctl sample_hdr sample_env (INTEL_FCS_DEV_OTHER 0x1234) (probe_world zero_data)
       = Some (0, probe_world zero_data)
   \<and> \<not> (kz_data_ok (sample_env\<lparr>kz_msg_ok := False\<rparr>) \<and>
         kz_msg_ok (sample_env\<lparr>kz_msg_ok := False\<rparr>))
   \<and> fcs_ioctl sample_hdr (sample_env\<lparr>kz_msg_ok := False\<rparr>) (INTEL_FCS_DEV_OTHER 0x1234)
       (probe_world zero_data) = Some (- ENOMEM, probe_world zero_data)"
  using
    unsupported_cmd
      [of "INTEL_FCS_DEV_OTHER 0x1234" sample_env sample_hdr "probe_world zero_data"]
    unsupported_cmd
      [of "INTEL_FCS_DEV_OTHER 0x1234" "sample_env\<lparr>kz_msg_ok := False\<rparr>" sample_hdr
        "probe_world zero_data"]
  by (simp add: supported_cmds_def sample_env_def)

text \<open>
  C10, as stated, fails: with a command code outside the switch and the first
  \<open>devm_kzalloc\<close> failing, the call returns \<open>-ENOMEM\<close>, not 0; and the switch has
  fourteen case labels, not thirteen.
\<close>

theorem unsupported_cmd_not_always_zero:
  "INTEL_FCS_DEV_OTHER 0x1234 \<notin> set supported_cmds
   \<and> fcs_ioctl sample_hdr (sample_env\<lparr>kz_data_ok := False\<rparr>) (INTEL_FCS_DEV_OTHER 0x1234)
       (probe_world zero_data) = Some (- ENOMEM, probe_world zero_data)
   \<and> - ENOMEM \<noteq> 0
   \<and> length supported_cmds \<noteq> 13"
  by (simp add: supported_cmds_def fcs_ioctl_def sample_env_def ENOMEM_def)

subsection \<open>Buffers\<close>

text \<open>
  C1 fails on the code. Two requests from the state after probe:
  a validation request whose final \<open>copy_to_user\<close> fails closes the services in the
  error branch and again on the common exit, so its one buffer is freed twice; an
  attestation sub-key request whose second allocation fails returns \<open>-ENOMEM\<close> without
  freeing the first buffer. Neither trace is balanced.
\<close>

theorem buffers_not_balanced:
  "map_option (\<lambda>(r, s'). (r, allocated (trace s'), freed (trace s'), balanced (trace s')))
     (fcs_ioctl sample_hdr (sample_env\<lparr>copy_out_ok := False\<rparr>)
        INTEL_FCS_DEV_VALIDATION_REQUEST (probe_world zero_data))
     = Some (- EFAULT, [0], [0, 0], False)
   \<and> map_option (\<lambda>(r, s'). (r, allocated (trace s'), freed (trace s'), balanced (trace s')))
     (fcs_ioctl sample_hdr (sample_env\<lparr>d_buf_ok := False\<rparr>)
        INTEL_FCS_DEV_ATTESTATION_SUBKEY (probe_world zero_data))
     = Some (- ENOMEM, [0], [], False)"
  by (simp add: fcs_ioctl_def ioctl_VALIDATION_REQUEST_def ioctl_ATTESTATION_SUBKEY_def
      step_defs sample_defs fcs_consts errno_defs balanced_def Let_def)

text \<open>On the path where every step succeeds the same two requests are balanced.\<close>

lemma buffers_balanced_on_success:
  "map_option (\<lambda>(r, s'). (allocated (trace s'), freed (trace s'), balanced (trace s')))
     (fcs_ioctl sample_hdr sample_env
        INTEL_FCS_DEV_VALIDATION_REQUEST (probe_world zero_data))
     = Some ([0], [0], True)
   \<and> map_option (\<lambda>(r, s'). (allocated (trace s'), freed (trace s'), balanced (trace s')))
     (fcs_ioctl sample_hdr sample_env
        INTEL_FCS_DEV_ATTESTATION_SUBKEY (probe_world zero_data))
     = Some ([0, 1], [0, 1], True)"
  by (simp add: fcs_ioctl_def ioctl_VALIDATION_REQUEST_def ioctl_ATTESTATION_SUBKEY_def
      step_defs sample_defs fcs_consts errno_defs balanced_def Let_def)

subsection \<open>Two-phase requests\<close>

text \<open>
  C3 fails on the code for the certificate request. The first message completes with
  status \<open>OK\<close>, the poll message is sent and completes with status \<open>ERROR\<close> and error
  code \<open>0x3ff\<close>: the call returns 0 and the status word of the caller's record is the
  \<open>0x77\<close> the caller passed in, not the poll's \<open>0x3ff\<close>.
\<close>

theorem send_certificate_poll_status_lost:
  "map_option
     (\<lambda>(r, s'). (r, sent (trace s'), priv_status (priv s'), d_status (user_arg s')))
     (fcs_ioctl sample_hdr
        (sample_env\<lparr>svc1 := Notified (notification 1 None None None),
                     svc2 := Notified (notification 32 (Some 0x3ff) None None)\<rparr>)
        INTEL_FCS_DEV_SEND_CERTIFICATE (probe_world (zero_data\<lparr>d_status := 0x77\<rparr>)))
     = Some (0, [COMMAND_FCS_SEND_CERTIFICATE, COMMAND_POLL_SERVICE_STATUS], 0x3ff, 0x77)"
  by (simp add: fcs_ioctl_def ioctl_SEND_CERTIFICATE_def prim_defs sample_defs fcs_consts
      errno_defs Let_def)

text \<open>The validation request, with the same answers from the channel, reports the poll's
  status.\<close>

lemma validation_request_reports_poll_status:
  "map_option
     (\<lambda>(r, s'). (r, sent (trace s'), priv_status (priv s'), d_status (user_arg s')))
     (fcs_ioctl sample_hdr
        (sample_env\<lparr>svc1 := Notified (notification 1 None None None),
                     svc2 := Notified (notification 32 (Some 0x3ff) None None)\<rparr>)
        INTEL_FCS_DEV_VALIDATION_REQUEST (probe_world (zero_data\<lparr>d_status := 0x77\<rparr>)))
     = Some (0, [COMMAND_FCS_REQUEST_SERVICE, COMMAND_POLL_SERVICE_STATUS], 0x3ff, 0x3ff)"
  by (simp add: fcs_ioctl_def ioctl_VALIDATION_REQUEST_def prim_defs sample_defs fcs_consts
      errno_defs Let_def)

text \<open>When the first message of the certificate request completes with an error, no poll
  message is sent and the caller reads the first message's status.\<close>

lemma send_certificate_first_phase_fails:
  "map_option
     (\<lambda>(r, s'). (r, sent (trace s'), priv_status (priv s'), d_status (user_arg s')))
     (fcs_ioctl sample_hdr
        (sample_env\<lparr>svc1 := Notified (notification 32 (Some 5) None None),
                     svc2 := Notified (notification 1 None None (Some 0))\<rparr>)
        INTEL_FCS_DEV_SEND_CERTIFICATE (probe_world (zero_data\<lparr>d_status := 0x77\<rparr>)))
     = Some (0, [COMMAND_FCS_SEND_CERTIFICATE], 5, 5)"
  by (simp add: fcs_ioctl_def ioctl_SEND_CERTIFICATE_def prim_defs sample_defs fcs_consts
      errno_defs Let_def)

end
